theory Spec2Isabelle
  imports Main "HOL-Library.AList"
begin

section \<open>JavaScript values\<close>

text \<open>
  The adapter in \<^verbatim>\<open>src/utils/geminiAdapter.js\<close> works on untyped JavaScript values that
  come from JSON bodies. A value is one of the JSON shapes or \<^verbatim>\<open>undefined\<close>.
  \<^item> A number \<open>JNum m k\<close> stands for the decimal \<open>m / 10^k\<close>; the rounding of IEEE
    doubles is outside the model.
  \<^item> A string is a list of 8-bit characters (the UTF-8 text of the JavaScript string).
  \<^item> An object is the list of its own enumerable properties in the order in which
    JavaScript enumerates them; an array is the list of its elements.
\<close>

datatype jsval =
    JUndefined
  | JNull
  | JBool bool
  | JNum int nat
  | JStr string
  | JArr "jsval list"
  | JObj "(string \<times> jsval) list"

type_synonym props = "(string \<times> jsval) list"

datatype error = TypeError | SyntaxError

text \<open>\<^verbatim>\<open>if (v)\<close>, \<^verbatim>\<open>!v\<close>, \<^verbatim>\<open>a || b\<close>, \<^verbatim>\<open>a && b\<close>: JavaScript truthiness.\<close>

fun truthy :: "jsval \<Rightarrow> bool" where
  "truthy JUndefined = False"
| "truthy JNull = False"
| "truthy (JBool b) = b"
| "truthy (JNum m k) = (m \<noteq> 0)"
| "truthy (JStr s) = (s \<noteq> [])"
| "truthy (JArr xs) = True"
| "truthy (JObj ps) = True"

text \<open>\<^verbatim>\<open>typeof v === 'object'\<close> holds of objects, arrays and \<^verbatim>\<open>null\<close>.\<close>

fun is_object :: "jsval \<Rightarrow> bool" where
  "is_object JNull = True"
| "is_object (JArr xs) = True"
| "is_object (JObj ps) = True"
| "is_object v = False"

text \<open>\<^verbatim>\<open>Array.isArray(v)\<close> and the elements of an array.\<close>

fun isArray :: "jsval \<Rightarrow> bool" where
  "isArray (JArr xs) = True"
| "isArray v = False"

fun elems :: "jsval \<Rightarrow> jsval list" where
  "elems (JArr xs) = xs"
| "elems v = []"

text \<open>\<^verbatim>\<open>a || b\<close> and \<^verbatim>\<open>a ?? b\<close>.\<close>

definition js_or :: "jsval \<Rightarrow> jsval \<Rightarrow> jsval" where
  "js_or a b = (if truthy a then a else b)"

definition nullish :: "jsval \<Rightarrow> bool" where
  "nullish v = (v = JUndefined \<or> v = JNull)"

definition js_coalesce :: "jsval \<Rightarrow> jsval \<Rightarrow> jsval" where
  "js_coalesce a b = (if nullish a then b else a)"

subsection \<open>Property keys and their order\<close>

text \<open>Decimal text of a natural number, as \<^verbatim>\<open>String(i)\<close> gives for an array position.\<close>

fun digits_of :: "nat \<Rightarrow> string" where
  "digits_of n =
     (if n < 10 then [''0123456789'' ! n]
      else digits_of (n div 10) @ [''0123456789'' ! (n mod 10)])"

declare digits_of.simps [simp del]

definition is_digit :: "char \<Rightarrow> bool" where
  "is_digit c = (c \<in> set ''0123456789'')"

definition digit_val :: "char \<Rightarrow> nat" where
  "digit_val c = of_char c - 48"

definition nat_of_digits :: "string \<Rightarrow> nat" where
  "nat_of_digits s = foldl (\<lambda>a c. 10 * a + digit_val c) 0 s"

text \<open>
  A key is an array index when it is the canonical decimal text of an integer in
  \<open>0 .. 2^32 - 2\<close>. JavaScript enumerates the array-index keys of an object first, in
  ascending numeric order, and then the other string keys in the order of their creation.
\<close>

definition is_array_index :: "string \<Rightarrow> bool" where
  "is_array_index s =
     (s \<noteq> [] \<and> list_all is_digit s \<and> (hd s \<noteq> CHR ''0'' \<or> length s = 1)
      \<and> nat_of_digits s < 4294967295)"

text \<open>Creating a property that the object does not have yet.\<close>

fun ins_prop :: "string \<Rightarrow> jsval \<Rightarrow> props \<Rightarrow> props" where
  "ins_prop k v [] = [(k, v)]"
| "ins_prop k v ((k', v') # ps) =
     (if is_array_index k \<and> (\<not> is_array_index k' \<or> nat_of_digits k < nat_of_digits k')
      then (k, v) # (k', v') # ps
      else (k', v') # ins_prop k v ps)"

text \<open>
  \<^verbatim>\<open>o[k] = v\<close> on a plain object, and one property of an object literal: an existing
  property keeps its place and takes the new value, a new one is created.
\<close>

definition obj_set :: "string \<Rightarrow> jsval \<Rightarrow> props \<Rightarrow> props" where
  "obj_set k v ps = (if k \<in> fst ` set ps then AList.update k v ps else ins_prop k v ps)"

text \<open>Reading an own property of a property list: \<^verbatim>\<open>undefined\<close> when the key is absent.\<close>

definition own :: "props \<Rightarrow> string \<Rightarrow> jsval" where
  "own ps k = (case map_of ps k of None \<Rightarrow> JUndefined | Some v \<Rightarrow> v)"

text \<open>
  The own enumerable properties that a spread \<^verbatim>\<open>{...v}\<close> or a rest pattern copies: the
  properties of an object, the elements of an array under their positions, the characters
  of a string under their positions, nothing for the other values.
\<close>

fun own_entries :: "jsval \<Rightarrow> props" where
  "own_entries (JObj ps) = ps"
| "own_entries (JArr xs) = map (\<lambda>(i, x). (digits_of i, x)) (enumerate 0 xs)"
| "own_entries (JStr s) = map (\<lambda>(i, c). (digits_of i, JStr [c])) (enumerate 0 s)"
| "own_entries v = []"

text \<open>
  \<^verbatim>\<open>v.k\<close>. On \<^verbatim>\<open>null\<close> and \<^verbatim>\<open>undefined\<close> the read raises a TypeError. The names the
  adapter reads (\<^verbatim>\<open>response\<close>, \<^verbatim>\<open>candidates\<close>, \<^verbatim>\<open>index\<close>, \<^verbatim>\<open>content\<close>, \<^verbatim>\<open>parts\<close>,
  \<^verbatim>\<open>role\<close>, \<^verbatim>\<open>topP\<close>, ...) are not names of inherited or non-enumerable built-in
  properties, so the read sees the own enumerable properties only.
\<close>

fun get_prop :: "jsval \<Rightarrow> string \<Rightarrow> error + jsval" where
  "get_prop JUndefined k = Inl TypeError"
| "get_prop JNull k = Inl TypeError"
| "get_prop v k = Inr (own (own_entries v) k)"

text \<open>
  The same read at the places where the source has already tested the value to be truthy
  (\<^verbatim>\<open>a && a.k\<close>), so that it cannot raise.
\<close>

definition member :: "jsval \<Rightarrow> string \<Rightarrow> jsval" where
  "member v k = own (own_entries v) k"

text \<open>
  \<^verbatim>\<open>{...v}\<close> written into an object literal whose properties so far are \<open>ps\<close>, and the
  rest pattern \<^verbatim>\<open>const {a, b, ...rest} = v\<close>, which copies every own property but the named ones
  into a new object.
\<close>

definition spread :: "jsval \<Rightarrow> props \<Rightarrow> props" where
  "spread v ps = fold (\<lambda>(k, x). obj_set k x) (own_entries v) ps"

definition copy_without :: "string list \<Rightarrow> jsval \<Rightarrow> props" where
  "copy_without ex v =
     fold (\<lambda>(k, x). obj_set k x) (filter (\<lambda>(k, x). k \<notin> set ex) (own_entries v)) []"

text \<open>\<^verbatim>\<open>xs.map((x, idx) => f(x, idx))\<close>.\<close>

definition mapi :: "('a \<Rightarrow> int \<Rightarrow> 'b) \<Rightarrow> 'a list \<Rightarrow> 'b list" where
  "mapi f xs = map (\<lambda>(i, x). f x (int i)) (enumerate 0 xs)"

section \<open>The response sanitizer\<close>

text \<open>\<^verbatim>\<open>sanitizePart\<close>, lines 75-81.\<close>

definition sanitizePart :: "jsval \<Rightarrow> jsval" where
  "sanitizePart part =
     (if \<not> truthy part \<or> \<not> is_object part then part
      else JObj (copy_without [''thoughtSignature''] part))"

text \<open>\<^verbatim>\<open>sanitizeCandidate\<close>, lines 89-108.\<close>

definition sanitizeCandidate :: "jsval \<Rightarrow> int \<Rightarrow> jsval" where
  "sanitizeCandidate candidate index =
     (if \<not> truthy candidate \<or> \<not> is_object candidate then candidate
      else
        let result = spread candidate [];
            result = (if own result ''index'' = JUndefined
                      then obj_set ''index'' (JNum index 0) result else result);
            content = own result ''content'';
            result = (if truthy content \<and> isArray (member content ''parts'')
                      then obj_set ''content''
                             (JObj (obj_set ''parts''
                                (JArr (map sanitizePart (elems (member content ''parts''))))
                                (spread content [])))
                             result
                      else result)
        in JObj result)"

text \<open>\<^verbatim>\<open>extractGeminiResponse\<close>, lines 115-133.\<close>

definition extractGeminiResponse :: "jsval \<Rightarrow> jsval" where
  "extractGeminiResponse antigravityResponse =
     (let response = (if truthy antigravityResponse
                         \<and> truthy (member antigravityResponse ''response'')
                      then member antigravityResponse ''response''
                      else antigravityResponse)
      in if \<not> truthy response \<or> \<not> isArray (member response ''candidates'') then response
         else JObj (obj_set ''candidates''
                      (JArr (mapi sanitizeCandidate (elems (member response ''candidates''))))
                      (spread response [])))"

section \<open>Well-formed property lists\<close>

text \<open>
  The property list of a JavaScript object has no key twice, and its array-index keys come
  first in ascending order. \<open>wf_props\<close> states both; \<open>wf_val\<close> states the first for
  every object inside a value. Every value that JavaScript can build satisfies them.
\<close>

definition key_le :: "string \<Rightarrow> string \<Rightarrow> bool" where
  "key_le a b =
     (\<not> is_array_index b \<or> (is_array_index a \<and> nat_of_digits a \<le> nat_of_digits b))"

definition wf_props :: "props \<Rightarrow> bool" where
  "wf_props ps = (distinct (map fst ps) \<and> sorted_wrt key_le (map fst ps))"

fun wf_val :: "jsval \<Rightarrow> bool" where
  "wf_val (JObj ps) = (distinct (map fst ps) \<and> (\<forall>p \<in> set ps. wf_val (snd p)))"
| "wf_val (JArr xs) = (\<forall>x \<in> set xs. wf_val x)"
| "wf_val v = True"

text \<open>The two assignments in the body of \<^verbatim>\<open>sanitizeCandidate\<close>, named for the proofs.\<close>

definition with_index :: "int \<Rightarrow> props \<Rightarrow> props" where
  "with_index i r = (if own r ''index'' = JUndefined then obj_set ''index'' (JNum i 0) r else r)"

definition with_content :: "props \<Rightarrow> props" where
  "with_content r =
     (if truthy (own r ''content'') \<and> isArray (member (own r ''content'') ''parts'')
      then obj_set ''content''
             (JObj (obj_set ''parts''
                (JArr (map sanitizePart (elems (member (own r ''content'') ''parts''))))
                (spread (own r ''content'') [])))
             r
      else r)"

text \<open>
  The unwrapping of \<^verbatim>\<open>extractGeminiResponse\<close> as the specification words it, for
  comparison with the code: the envelope is recognised by the presence of the key
  \<^verbatim>\<open>response\<close>, whatever its value.
\<close>

definition has_key :: "jsval \<Rightarrow> string \<Rightarrow> bool" where
  "has_key v k = (k \<in> fst ` set (own_entries v))"

definition spec_extractGeminiResponse :: "jsval \<Rightarrow> jsval" where
  "spec_extractGeminiResponse r =
     (let payload = (if has_key r ''response'' then member r ''response'' else r)
      in if \<not> isArray (member payload ''candidates'') then payload
         else JObj (obj_set ''candidates''
                      (JArr (mapi sanitizeCandidate (elems (member payload ''candidates''))))
                      (spread payload [])))"

section \<open>The request translator\<close>

text \<open>
  The configuration module \<^verbatim>\<open>config\<close> is not part of the adapter; the fields that the
  adapter reads are a parameter: \<^verbatim>\<open>config.defaults.top_p\<close>, \<^verbatim>\<open>top_k\<close>, \<^verbatim>\<open>temperature\<close>,
  \<^verbatim>\<open>max_tokens\<close> and \<^verbatim>\<open>config.systemInstruction\<close>. A field that is not configured is
  \<^verbatim>\<open>undefined\<close>.
\<close>

record config_defaults =
  top_p :: jsval
  top_k :: jsval
  temperature :: jsval
  max_tokens :: jsval

record config =
  defaults :: config_defaults
  systemInstruction :: jsval

text \<open>
  Lines 26-33: the object literal \<^verbatim>\<open>mergedGenerationConfig\<close>. The reads
  \<^verbatim>\<open>generationConfig.topP\<close> raise a TypeError when \<^verbatim>\<open>generationConfig\<close> is \<^verbatim>\<open>null\<close>
  (the default \<^verbatim>\<open>{}\<close> of the destructuring pattern replaces \<^verbatim>\<open>undefined\<close> only).
\<close>

definition mergedGenerationConfig :: "config \<Rightarrow> jsval \<Rightarrow> error + props" where
  "mergedGenerationConfig cfg generationConfig =
     (if nullish generationConfig then Inl TypeError
      else Inr (spread generationConfig
        [(''topP'', js_coalesce (member generationConfig ''topP'') (top_p (defaults cfg))),
         (''topK'', js_coalesce (member generationConfig ''topK'') (top_k (defaults cfg))),
         (''temperature'',
            js_coalesce (member generationConfig ''temperature'') (temperature (defaults cfg))),
         (''maxOutputTokens'',
            js_coalesce (member generationConfig ''maxOutputTokens'') (max_tokens (defaults cfg))),
         (''candidateCount'', js_coalesce (member generationConfig ''candidateCount'') (JNum 1 0))]))"

text \<open>Lines 36-53: \<^verbatim>\<open>finalSystemInstruction\<close>.\<close>

definition finalSystemInstruction :: "config \<Rightarrow> jsval \<Rightarrow> jsval" where
  "finalSystemInstruction cfg sysInstr =
     (if truthy sysInstr then
        JObj [(''role'', js_or (member sysInstr ''role'') (JStr ''user'')),
              (''parts'', js_or (member sysInstr ''parts'')
                 (JArr [JObj [(''text'', js_or (systemInstruction cfg) (JStr ''''))]]))]
      else if truthy (systemInstruction cfg) then
        JObj [(''role'', JStr ''user''),
              (''parts'', JArr [JObj [(''text'', systemInstruction cfg)]])]
      else
        JObj [(''role'', JStr ''user''), (''parts'', JArr [JObj [(''text'', JStr '''')]])])"

text \<open>
  \<^verbatim>\<open>convertGeminiToAntigravity\<close>, lines 16-68. The result of the one call of
  \<^verbatim>\<open>generateRequestId()\<close> is the parameter \<open>requestId\<close>. Destructuring \<^verbatim>\<open>null\<close> or
  \<^verbatim>\<open>undefined\<close> raises a TypeError, and so does \<^verbatim>\<open>token.projectId\<close> on such a token.
\<close>

definition convertGeminiToAntigravity ::
  "config \<Rightarrow> jsval \<Rightarrow> jsval \<Rightarrow> jsval \<Rightarrow> jsval \<Rightarrow> error + jsval" where
  "convertGeminiToAntigravity cfg requestId model geminiRequest token =
     (if nullish geminiRequest then Inl TypeError
      else
        let contents = (if member geminiRequest ''contents'' = JUndefined then JArr []
                        else member geminiRequest ''contents'');
            generationConfig =
              (if member geminiRequest ''generationConfig'' = JUndefined then JObj []
               else member geminiRequest ''generationConfig'');
            sysInstr = member geminiRequest ''systemInstruction'';
            rest = copy_without
                     [''contents'', ''generationConfig'', ''systemInstruction'', ''safetySettings'']
                     geminiRequest
        in case mergedGenerationConfig cfg generationConfig of
             Inl e \<Rightarrow> Inl e
           | Inr merged \<Rightarrow>
               if nullish token then Inl TypeError
               else Inr (JObj
                 [(''project'', member token ''projectId''),
                  (''requestId'', requestId),
                  (''request'', JObj (spread (JObj rest)
                     [(''contents'', contents),
                      (''systemInstruction'', finalSystemInstruction cfg sysInstr),
                      (''generationConfig'', JObj merged),
                      (''sessionId'', member token ''sessionId'')])),
                  (''model'', model),
                  (''userAgent'', JStr ''antigravity'')]))"

text \<open>A property named \<open>k\<close> at any depth of a value.\<close>

fun has_field :: "string \<Rightarrow> jsval \<Rightarrow> bool" where
  "has_field k (JObj ps) = (k \<in> fst ` set ps \<or> (\<exists>p \<in> set ps. has_field k (snd p)))"
| "has_field k (JArr xs) = (\<exists>x \<in> set xs. has_field k x)"
| "has_field k v = False"

text \<open>
  The resolution of the system instruction as the specification words it, for comparison
  with the code: a supplied instruction's role and parts are taken when the key is present,
  whatever its value.
\<close>

definition spec_finalSystemInstruction :: "config \<Rightarrow> jsval \<Rightarrow> jsval" where
  "spec_finalSystemInstruction cfg geminiRequest =
     (let sysInstr = member geminiRequest ''systemInstruction'' in
      if has_key geminiRequest ''systemInstruction'' then
        JObj [(''role'',
                 if has_key sysInstr ''role'' then member sysInstr ''role'' else JStr ''user''),
              (''parts'',
                 if has_key sysInstr ''parts'' then member sysInstr ''parts''
                 else JArr [JObj [(''text'', js_or (systemInstruction cfg) (JStr ''''))]])]
      else if truthy (systemInstruction cfg) then
        JObj [(''role'', JStr ''user''),
              (''parts'', JArr [JObj [(''text'', systemInstruction cfg)]])]
      else
        JObj [(''role'', JStr ''user''), (''parts'', JArr [JObj [(''text'', JStr '''')]])])"

text \<open>Names for the parts of the translated request, used in the statements below.\<close>

definition ok_input :: "jsval \<Rightarrow> jsval \<Rightarrow> bool" where
  "ok_input geminiRequest token =
     (\<not> nullish geminiRequest \<and> \<not> nullish token
      \<and> member geminiRequest ''generationConfig'' \<noteq> JNull)"

definition request_of :: "jsval \<Rightarrow> jsval" where
  "request_of out = member out ''request''"

definition incoming_generationConfig :: "jsval \<Rightarrow> jsval" where
  "incoming_generationConfig geminiRequest =
     (if member geminiRequest ''generationConfig'' = JUndefined then JObj []
      else member geminiRequest ''generationConfig'')"

definition rest_of :: "jsval \<Rightarrow> props" where
  "rest_of geminiRequest =
     copy_without [''contents'', ''generationConfig'', ''systemInstruction'', ''safetySettings'']
       geminiRequest"

definition merged_of :: "config \<Rightarrow> jsval \<Rightarrow> props" where
  "merged_of cfg gc = spread gc
        [(''topP'', js_coalesce (member gc ''topP'') (top_p (defaults cfg))),
         (''topK'', js_coalesce (member gc ''topK'') (top_k (defaults cfg))),
         (''temperature'', js_coalesce (member gc ''temperature'') (temperature (defaults cfg))),
         (''maxOutputTokens'',
            js_coalesce (member gc ''maxOutputTokens'') (max_tokens (defaults cfg))),
         (''candidateCount'', js_coalesce (member gc ''candidateCount'') (JNum 1 0))]"

definition request_props :: "config \<Rightarrow> jsval \<Rightarrow> jsval \<Rightarrow> props" where
  "request_props cfg geminiRequest token =
     spread (JObj (rest_of geminiRequest))
       [(''contents'', if member geminiRequest ''contents'' = JUndefined then JArr []
                        else member geminiRequest ''contents''),
        (''systemInstruction'',
           finalSystemInstruction cfg (member geminiRequest ''systemInstruction'')),
        (''generationConfig'', JObj (merged_of cfg (incoming_generationConfig geminiRequest))),
        (''sessionId'', member token ''sessionId'')]"

text \<open>A configuration and a token for the worked examples.\<close>

definition example_config :: config where
  "example_config =
     \<lparr>defaults = \<lparr>top_p = JNum 85 2, top_k = JNum 50 0, temperature = JNum 1 0,
                   max_tokens = JNum 8096 0\<rparr>,
      systemInstruction = JStr ''''\<rparr>"

definition example_token :: jsval where
  "example_token = JObj [(''projectId'', JStr ''p-1''), (''sessionId'', JStr ''s-1'')]"

text \<open>The fallback of each named field of the merged generation configuration.\<close>

definition default_of :: "config \<Rightarrow> string \<Rightarrow> jsval" where
  "default_of cfg k =
     own [(''topP'', top_p (defaults cfg)), (''topK'', top_k (defaults cfg)),
          (''temperature'', temperature (defaults cfg)),
          (''maxOutputTokens'', max_tokens (defaults cfg)),
          (''candidateCount'', JNum 1 0)] k"

section \<open>JSON text\<close>

text \<open>
  \<^verbatim>\<open>JSON.parse\<close> and \<^verbatim>\<open>JSON.stringify\<close> belong to the JavaScript runtime. They are modelled
  here by a reader and a writer of the JSON grammar (ECMA-404) over the characters of the
  text. The reader splits the text into tokens and then builds the value with a stack of
  the arrays and objects that are still open; both passes read their input once, from left
  to right. Numbers are read exactly (no rounding to a double), an escape \<^verbatim>\<open>\uXXXX\<close> is
  decoded to the UTF-8 bytes of that code unit.
\<close>

datatype token =
    TLBrace | TRBrace | TLBracket | TRBracket | TColon | TComma
  | TString string | TNumber int nat | TTrue | TFalse | TNull

subsection \<open>Numbers\<close>

text \<open>The decimal \<open>m / 10^k\<close> with the trailing zeros of the fraction removed.\<close>

fun normalize_dec :: "int \<Rightarrow> nat \<Rightarrow> int \<times> nat" where
  "normalize_dec m 0 = (m, 0)"
| "normalize_dec m (Suc k) =
     (if m mod 10 = 0 then normalize_dec (m div 10) k else (m, Suc k))"

text \<open>The value of a number read with integer digits \<open>ds\<close>, fraction digits \<open>fs\<close> and exponent \<open>e\<close>.\<close>

definition decimal_value :: "bool \<Rightarrow> string \<Rightarrow> string \<Rightarrow> int \<Rightarrow> int \<times> nat" where
  "decimal_value neg ds fs e =
     (let mant = int (nat_of_digits (ds @ fs));
          mant = (if neg then - mant else mant);
          sh = e - int (length fs)
      in if sh \<ge> 0 then (mant * 10 ^ nat sh, 0) else normalize_dec mant (nat (- sh)))"

text \<open>
  A number token after its optional minus sign: an integer part without a leading zero, an
  optional fraction, an optional exponent.
\<close>

definition parse_unsigned :: "bool \<Rightarrow> string \<Rightarrow> (int \<times> nat) option" where
  "parse_unsigned neg r1 =
     (let ds = takeWhile is_digit r1;
          r2 = dropWhile is_digit r1;
          has_frac = (r2 \<noteq> [] \<and> hd r2 = CHR ''.'');
          fs = (if has_frac then takeWhile is_digit (tl r2) else []);
          r3 = (if has_frac then dropWhile is_digit (tl r2) else r2);
          has_exp = (r3 \<noteq> [] \<and> (hd r3 = CHR ''e'' \<or> hd r3 = CHR ''E''));
          r4 = (if has_exp then tl r3 else r3);
          eneg = (has_exp \<and> r4 \<noteq> [] \<and> hd r4 = CHR ''-'');
          es = (if has_exp \<and> r4 \<noteq> [] \<and> (hd r4 = CHR ''-'' \<or> hd r4 = CHR ''+'')
                then tl r4 else r4)
      in if ds = [] \<or> (length ds > 1 \<and> hd ds = CHR ''0'') then None
         else if has_frac \<and> fs = [] then None
         else if has_exp \<and> (es = [] \<or> \<not> list_all is_digit es) then None
         else if \<not> has_exp \<and> r3 \<noteq> [] then None
         else Some (decimal_value neg ds fs
                (if has_exp then (if eneg then - int (nat_of_digits es)
                                  else int (nat_of_digits es)) else 0)))"

definition parse_number :: "string \<Rightarrow> (int \<times> nat) option" where
  "parse_number w =
     (if w \<noteq> [] \<and> hd w = CHR ''-'' then parse_unsigned True (tl w)
      else parse_unsigned False w)"

subsection \<open>Tokens\<close>

definition is_ws :: "char \<Rightarrow> bool" where
  "is_ws c = (c = CHR '' '' \<or> c = CHR 0x09 \<or> c = CHR 0x0A \<or> c = CHR 0x0D)"

definition char_between :: "char \<Rightarrow> char \<Rightarrow> char \<Rightarrow> bool" where
  "char_between lo hi c = ((of_char lo :: nat) \<le> of_char c \<and> (of_char c :: nat) \<le> of_char hi)"

definition is_word_char :: "char \<Rightarrow> bool" where
  "is_word_char c =
     (is_digit c \<or> c = CHR ''-'' \<or> c = CHR ''+'' \<or> c = CHR ''.''
      \<or> char_between (CHR ''a'') (CHR ''z'') c \<or> char_between (CHR ''A'') (CHR ''Z'') c)"

definition hex_val :: "char \<Rightarrow> nat option" where
  "hex_val c =
     (if is_digit c then Some (of_char c - 48)
      else if char_between (CHR ''a'') (CHR ''f'') c then Some (of_char c - 87)
      else if char_between (CHR ''A'') (CHR ''F'') c then Some (of_char c - 55)
      else None)"

text \<open>The UTF-8 bytes of a code unit below \<open>2^16\<close>.\<close>

definition utf8_unit :: "nat \<Rightarrow> string" where
  "utf8_unit u =
     (if u < 128 then [char_of u]
      else if u < 2048 then [char_of (192 + u div 64), char_of (128 + u mod 64)]
      else [char_of (224 + u div 4096), char_of (128 + (u div 64) mod 64),
            char_of (128 + u mod 64)])"

definition classify_word :: "string \<Rightarrow> token option" where
  "classify_word w =
     (if w = ''true'' then Some TTrue
      else if w = ''false'' then Some TFalse
      else if w = ''null'' then Some TNull
      else case parse_number w of None \<Rightarrow> None | Some (m, k) \<Rightarrow> Some (TNumber m k))"

text \<open>
  The state of the tokenizer: between tokens, inside a number or a literal name, inside a
  string, after a backslash, inside the four hexadecimal digits of \<^verbatim>\<open>\u\<close>.
\<close>

datatype lexmode =
    LIdle
  | LWord string
  | LStr string
  | LEsc string
  | LUni string nat nat

definition lex_idle :: "token list \<Rightarrow> char \<Rightarrow> (lexmode \<times> token list) option" where
  "lex_idle toks c =
     (if is_ws c then Some (LIdle, toks)
      else if c = CHR ''{'' then Some (LIdle, toks @ [TLBrace])
      else if c = CHR ''}'' then Some (LIdle, toks @ [TRBrace])
      else if c = CHR ''['' then Some (LIdle, toks @ [TLBracket])
      else if c = CHR '']'' then Some (LIdle, toks @ [TRBracket])
      else if c = CHR '':'' then Some (LIdle, toks @ [TColon])
      else if c = CHR '','' then Some (LIdle, toks @ [TComma])
      else if c = CHR 0x22 then Some (LStr [], toks)
      else if is_word_char c then Some (LWord [c], toks)
      else None)"

fun lex_step :: "lexmode \<times> token list \<Rightarrow> char \<Rightarrow> (lexmode \<times> token list) option" where
  "lex_step (LIdle, toks) c = lex_idle toks c"
| "lex_step (LWord w, toks) c =
     (if is_word_char c then Some (LWord (w @ [c]), toks)
      else case classify_word w of
             None \<Rightarrow> None
           | Some t \<Rightarrow> lex_idle (toks @ [t]) c)"
| "lex_step (LStr s, toks) c =
     (if c = CHR 0x22 then Some (LIdle, toks @ [TString s])
      else if c = CHR 0x5C then Some (LEsc s, toks)
      else if (of_char c :: nat) < 32 then None
      else Some (LStr (s @ [c]), toks))"
| "lex_step (LEsc s, toks) c =
     (if c = CHR 0x22 \<or> c = CHR 0x5C \<or> c = CHR ''/'' then Some (LStr (s @ [c]), toks)
      else if c = CHR ''b'' then Some (LStr (s @ [CHR 0x08]), toks)
      else if c = CHR ''f'' then Some (LStr (s @ [CHR 0x0C]), toks)
      else if c = CHR ''n'' then Some (LStr (s @ [CHR 0x0A]), toks)
      else if c = CHR ''r'' then Some (LStr (s @ [CHR 0x0D]), toks)
      else if c = CHR ''t'' then Some (LStr (s @ [CHR 0x09]), toks)
      else if c = CHR ''u'' then Some (LUni s 0 0, toks)
      else None)"
| "lex_step (LUni s n u, toks) c =
     (case hex_val c of
        None \<Rightarrow> None
      | Some h \<Rightarrow>
          if n = 3 then Some (LStr (s @ utf8_unit (16 * u + h)), toks)
          else Some (LUni s (Suc n) (16 * u + h), toks))"

fun lex_end :: "lexmode \<times> token list \<Rightarrow> token list option" where
  "lex_end (LIdle, toks) = Some toks"
| "lex_end (LWord w, toks) =
     (case classify_word w of None \<Rightarrow> None | Some t \<Rightarrow> Some (toks @ [t]))"
| "lex_end (m, toks) = None"

fun lex_run :: "lexmode \<times> token list \<Rightarrow> string \<Rightarrow> token list option" where
  "lex_run st [] = lex_end st"
| "lex_run st (c # cs) = (case lex_step st c of None \<Rightarrow> None | Some st' \<Rightarrow> lex_run st' cs)"

subsection \<open>Values\<close>

text \<open>
  An open array with the elements read so far, an open object with the properties read
  so far, and an open object whose next value belongs to the key already read.
\<close>

datatype frame = FArr "jsval list" | FObj props | FKey props string

datatype pmode = PValue | PArrStart | PObjStart | PKey | PColon | PAfter | PDone jsval

text \<open>A complete value goes into the innermost open array or object, or is the result.\<close>

fun push_value :: "jsval \<Rightarrow> frame list \<Rightarrow> (pmode \<times> frame list) option" where
  "push_value v [] = Some (PDone v, [])"
| "push_value v (FArr xs # st) = Some (PAfter, FArr (xs @ [v]) # st)"
| "push_value v (FKey ps k # st) = Some (PAfter, FObj (obj_set k v ps) # st)"
| "push_value v (FObj ps # st) = None"

fun scalar_of :: "token \<Rightarrow> jsval option" where
  "scalar_of (TString s) = Some (JStr s)"
| "scalar_of (TNumber m k) = Some (JNum m k)"
| "scalar_of TTrue = Some (JBool True)"
| "scalar_of TFalse = Some (JBool False)"
| "scalar_of TNull = Some JNull"
| "scalar_of t = None"

definition parse_value_start :: "frame list \<Rightarrow> token \<Rightarrow> (pmode \<times> frame list) option" where
  "parse_value_start st t =
     (if t = TLBracket then Some (PArrStart, FArr [] # st)
      else if t = TLBrace then Some (PObjStart, FObj [] # st)
      else case scalar_of t of None \<Rightarrow> None | Some v \<Rightarrow> push_value v st)"

fun parse_step :: "pmode \<times> frame list \<Rightarrow> token \<Rightarrow> (pmode \<times> frame list) option" where
  "parse_step (PValue, st) t = parse_value_start st t"
| "parse_step (PArrStart, FArr xs # st) t =
     (if t = TRBracket then push_value (JArr xs) st else parse_value_start (FArr xs # st) t)"
| "parse_step (PObjStart, FObj ps # st) t =
     (case t of TRBrace \<Rightarrow> push_value (JObj ps) st
              | TString k \<Rightarrow> Some (PColon, FKey ps k # st)
              | _ \<Rightarrow> None)"
| "parse_step (PKey, FObj ps # st) t =
     (case t of TString k \<Rightarrow> Some (PColon, FKey ps k # st) | _ \<Rightarrow> None)"
| "parse_step (PColon, st) t = (if t = TColon then Some (PValue, st) else None)"
| "parse_step (PAfter, FArr xs # st) t =
     (if t = TComma then Some (PValue, FArr xs # st)
      else if t = TRBracket then push_value (JArr xs) st
      else None)"
| "parse_step (PAfter, FObj ps # st) t =
     (if t = TComma then Some (PKey, FObj ps # st)
      else if t = TRBrace then push_value (JObj ps) st
      else None)"
| "parse_step s t = None"

fun parse_run :: "pmode \<times> frame list \<Rightarrow> token list \<Rightarrow> jsval option" where
  "parse_run (PDone v, st) [] = Some v"
| "parse_run s [] = None"
| "parse_run s (t # ts) = (case parse_step s t of None \<Rightarrow> None | Some s' \<Rightarrow> parse_run s' ts)"

text \<open>\<^verbatim>\<open>JSON.parse(text)\<close>: the value, or a SyntaxError.\<close>

definition JSON_parse :: "string \<Rightarrow> error + jsval" where
  "JSON_parse s =
     (case lex_run (LIdle, []) s of
        None \<Rightarrow> Inl SyntaxError
      | Some toks \<Rightarrow>
          (case parse_run (PValue, []) toks of None \<Rightarrow> Inl SyntaxError | Some v \<Rightarrow> Inr v))"

subsection \<open>Writing\<close>

definition hex_digit :: "nat \<Rightarrow> char" where
  "hex_digit d = ''0123456789abcdef'' ! d"

text \<open>One character inside a JSON string, as \<^verbatim>\<open>JSON.stringify\<close> quotes it.\<close>

definition quote_char :: "char \<Rightarrow> string" where
  "quote_char c =
     (if c = CHR 0x22 then [CHR 0x5C, CHR 0x22]
      else if c = CHR 0x5C then [CHR 0x5C, CHR 0x5C]
      else if c = CHR 0x08 then [CHR 0x5C, CHR ''b'']
      else if c = CHR 0x0C then [CHR 0x5C, CHR ''f'']
      else if c = CHR 0x0A then [CHR 0x5C, CHR ''n'']
      else if c = CHR 0x0D then [CHR 0x5C, CHR ''r'']
      else if c = CHR 0x09 then [CHR 0x5C, CHR ''t'']
      else if (of_char c :: nat) < 32
        then [CHR 0x5C, CHR ''u'', CHR ''0'', CHR ''0'',
              hex_digit (of_char c div 16), hex_digit (of_char c mod 16)]
      else [c])"

definition quote :: "string \<Rightarrow> string" where
  "quote s = [CHR 0x22] @ concat (map quote_char s) @ [CHR 0x22]"

text \<open>
  \<^verbatim>\<open>Number.prototype.toString\<close> for the decimal \<open>m / 10^k\<close>: with the significant digits
  \<open>ds\<close> and the position \<open>n\<close> of the decimal point, plain digits when
  \<open>length ds \<le> n \<le> 21\<close>, a decimal point inside when \<open>0 < n \<le> 21\<close>, leading zeros when
  \<open>-6 < n \<le> 0\<close>, and the exponent form otherwise.
\<close>

definition strip_zeros :: "string \<Rightarrow> string" where
  "strip_zeros ds = rev (dropWhile (\<lambda>c. c = CHR ''0'') (rev ds))"

definition exponent_text :: "int \<Rightarrow> string" where
  "exponent_text e = ''e'' @ (if e < 0 then ''-'' else ''+'') @ digits_of (nat \<bar>e\<bar>)"

definition unsigned_text :: "nat \<Rightarrow> nat \<Rightarrow> string" where
  "unsigned_text a k =
     (let ds0 = digits_of a;
          n = int (length ds0) - int k;
          ds = strip_zeros ds0;
          len = int (length ds)
      in if len \<le> n \<and> n \<le> 21 then ds @ replicate (nat (n - len)) (CHR ''0'')
         else if 0 < n \<and> n \<le> 21 then take (nat n) ds @ ''.'' @ drop (nat n) ds
         else if - 6 < n \<and> n \<le> 0 then ''0.'' @ replicate (nat (- n)) (CHR ''0'') @ ds
         else if len = 1 then ds @ exponent_text (n - 1)
         else take 1 ds @ ''.'' @ drop 1 ds @ exponent_text (n - 1))"

definition number_to_string :: "int \<Rightarrow> nat \<Rightarrow> string" where
  "number_to_string m k =
     (if m = 0 then ''0''
      else (if m < 0 then ''-'' else '''') @ unsigned_text (nat \<bar>m\<bar>) k)"

fun join :: "string \<Rightarrow> string list \<Rightarrow> string" where
  "join sep [] = []"
| "join sep [x] = x"
| "join sep (x # y # ys) = x @ sep @ join sep (y # ys)"

text \<open>
  \<^verbatim>\<open>JSON.stringify(v)\<close>: \<open>None\<close> stands for the result \<^verbatim>\<open>undefined\<close>. An \<^verbatim>\<open>undefined\<close>
  element of an array is written \<^verbatim>\<open>null\<close>; a property whose value is \<^verbatim>\<open>undefined\<close> is left
  out.
\<close>

fun JSON_stringify :: "jsval \<Rightarrow> string option" where
  "JSON_stringify JUndefined = None"
| "JSON_stringify JNull = Some ''null''"
| "JSON_stringify (JBool b) = Some (if b then ''true'' else ''false'')"
| "JSON_stringify (JNum m k) = Some (number_to_string m k)"
| "JSON_stringify (JStr s) = Some (quote s)"
| "JSON_stringify (JArr xs) =
     Some (''['' @ join '',''
        (map (\<lambda>x. case JSON_stringify x of None \<Rightarrow> ''null'' | Some t \<Rightarrow> t) xs) @ '']'')"
| "JSON_stringify (JObj ps) =
     Some (''{'' @ join '',''
        (concat (map (\<lambda>p. case JSON_stringify (snd p) of
                              None \<Rightarrow> []
                            | Some t \<Rightarrow> [quote (fst p) @ '':'' @ t]) ps)) @ ''}'')"

text \<open>The interpolation \<^verbatim>\<open>${...}\<close> of a template literal.\<close>

definition template_text :: "string option \<Rightarrow> string" where
  "template_text r = (case r of None \<Rightarrow> ''undefined'' | Some t \<Rightarrow> t)"

section \<open>The streaming transform\<close>

definition starts_with :: "string \<Rightarrow> string \<Rightarrow> bool" where
  "starts_with p s = (take (length p) s = p)"

text \<open>
  \<^verbatim>\<open>transformStreamLine\<close>, lines 161-184. The body of the \<^verbatim>\<open>try\<close> block gives the new line
  or the error that was raised; the \<^verbatim>\<open>catch\<close> block returns the line for every error.
\<close>

definition transformStreamLine_try :: "string \<Rightarrow> error + string" where
  "transformStreamLine_try line =
     (case JSON_parse (drop 6 line) of
        Inl e \<Rightarrow> Inl e
      | Inr data \<Rightarrow>
          (case get_prop data ''response'' of
             Inl e \<Rightarrow> Inl e
           | Inr response \<Rightarrow>
               let geminiData = (if truthy response then response else data)
               in (case get_prop geminiData ''candidates'' of
                     Inl e \<Rightarrow> Inl e
                   | Inr candidates \<Rightarrow>
                       let geminiData =
                             (if truthy candidates \<and> isArray candidates
                              then JObj (obj_set ''candidates''
                                     (JArr (mapi sanitizeCandidate (elems candidates)))
                                     (spread geminiData []))
                              else geminiData)
                       in Inr (''data: '' @ template_text (JSON_stringify geminiData)))))"

definition transformStreamLine :: "string \<Rightarrow> string" where
  "transformStreamLine line =
     (if \<not> starts_with ''data: '' line then line
      else case transformStreamLine_try line of Inl e \<Rightarrow> line | Inr out \<Rightarrow> out)"


section \<open>Property lists\<close>

lemma set_ins_prop: "set (ins_prop k v ps) = insert (k, v) (set ps)"
  by (induction ps) (auto split: if_splits)

lemma keys_obj_set: "fst ` set (obj_set k v ps) = insert k (fst ` set ps)"
  by (auto simp: obj_set_def set_ins_prop dom_update)

lemma map_of_ins_prop: "k \<notin> fst ` set ps \<Longrightarrow> map_of (ins_prop k v ps) = (map_of ps)(k \<mapsto> v)"
  by (induction ps) (auto simp: fun_eq_iff)

lemma own_obj_set: "own (obj_set k v ps) k' = (if k' = k then v else own ps k')"
  by (auto simp: own_def obj_set_def update_conv' map_of_ins_prop)

lemma key_le_trans: "key_le a b \<Longrightarrow> key_le b c \<Longrightarrow> key_le a c"
  by (auto simp: key_le_def)

lemma sorted_ins_prop: "sorted_wrt key_le (map fst ps) \<Longrightarrow> sorted_wrt key_le (map fst (ins_prop k v ps))"
  by (induction ps) (fastforce simp: key_le_def set_ins_prop)+

lemma distinct_ins_prop: "k \<notin> fst ` set ps \<Longrightarrow> distinct (map fst ps) \<Longrightarrow> distinct (map fst (ins_prop k v ps))"
  by (induction ps) (auto simp: set_ins_prop)

lemma wf_obj_set: "wf_props ps \<Longrightarrow> wf_props (obj_set k v ps)"
  by (auto simp: wf_props_def obj_set_def distinct_update update_keys sorted_ins_prop distinct_ins_prop)

lemma ins_prop_snoc: "\<forall>k' \<in> fst ` set ps. key_le k' k \<Longrightarrow> ins_prop k v ps = ps @ [(k, v)]"
  by (induction ps) (auto simp: key_le_def)

lemma fold_obj_set_id: "wf_props (qs @ ps) \<Longrightarrow> fold (\<lambda>(k, x). obj_set k x) ps qs = qs @ ps"
proof (induction ps arbitrary: qs)
  case Nil then show ?case by simp
next
  case (Cons p ps)
  obtain k v where p: "p = (k, v)" by (cases p)
  from Cons.prems have "k \<notin> fst ` set qs" "\<forall>k' \<in> fst ` set qs. key_le k' k"
    by (auto simp: wf_props_def p sorted_wrt_append)
  then have "obj_set k v qs = qs @ [(k, v)]" by (simp add: obj_set_def ins_prop_snoc)
  moreover from Cons.prems have "wf_props ((qs @ [(k, v)]) @ ps)" by (simp add: p)
  ultimately show ?case using Cons.IH[of "qs @ [(k, v)]"] by (simp add: p)
qed

lemma wf_fold_obj_set: "wf_props qs \<Longrightarrow> wf_props (fold (\<lambda>(k, x). obj_set k x) ps qs)"
  by (induction ps arbitrary: qs) (auto simp: wf_obj_set)

lemma digit_val_nth: "d < 10 \<Longrightarrow> digit_val (''0123456789'' ! d) = d"
proof -
  assume "d < 10"
  then have "d \<in> {0,1,2,3,4,5,6,7,8,9}" by auto
  then show ?thesis by (auto simp: digit_val_def)
qed

lemma nat_of_digits_snoc: "nat_of_digits (s @ [c]) = 10 * nat_of_digits s + digit_val c"
  by (simp add: nat_of_digits_def)

lemma nat_of_digits_of: "nat_of_digits (digits_of n) = n"
proof (induction n rule: digits_of.induct)
  case (1 n)
  show ?case
  proof (cases "n < 10")
    case True
    then show ?thesis by (subst digits_of.simps) (simp add: nat_of_digits_def digit_val_nth)
  next
    case False
    with 1 show ?thesis
      by (subst digits_of.simps) (simp add: nat_of_digits_snoc digit_val_nth)
  qed
qed

lemma inj_digits_of: "inj digits_of"
  by (metis injI nat_of_digits_of)

lemma keys_enumerate: "map fst (map (\<lambda>(i, x). (digits_of i, f x)) (enumerate n xs)) = map digits_of [n..<n + length xs]"
  by (induction xs arbitrary: n) (auto simp: upt_conv_Cons simp del: upt_Suc)


section \<open>The sanitizer\<close>

lemma keys_fold_obj_set:
  "fst ` set (fold (\<lambda>(k, x). obj_set k x) es qs) = fst ` set es \<union> fst ` set qs"
  by (induction es arbitrary: qs) (simp_all add: split_def keys_obj_set)

lemma own_Cons: "own ((k0, v0) # es) k = (if k = k0 then v0 else own es k)"
  by (simp add: own_def)

lemma own_Nil: "own [] k = JUndefined"
  by (simp add: own_def)

lemma own_fold_obj_set:
  "distinct (map fst es) \<Longrightarrow>
   own (fold (\<lambda>(k, x). obj_set k x) es qs) k = (if k \<in> fst ` set es then own es k else own qs k)"
proof (induction es arbitrary: qs)
  case Nil then show ?case by simp
next
  case (Cons e es)
  obtain k0 v0 where e: "e = (k0, v0)" by (cases e)
  from Cons.prems have d: "distinct (map fst es)" and n: "k0 \<notin> fst ` set es" by (auto simp: e)
  have m: "k \<in> fst ` set es \<Longrightarrow> k \<noteq> k0" using n by auto
  show ?case using Cons.IH[OF d, of "obj_set k0 v0 qs"] m
    by (auto simp: e own_obj_set own_Cons)
qed

lemma wf_props_Nil: "wf_props []" by (simp add: wf_props_def)

lemma wf_spread: "wf_props (spread v [])"
  by (simp add: spread_def wf_fold_obj_set wf_props_Nil)

lemma wf_copy_without: "wf_props (copy_without ex v)"
  by (simp add: copy_without_def wf_fold_obj_set wf_props_Nil)

lemma spread_obj_id: "wf_props ps \<Longrightarrow> spread (JObj ps) [] = ps"
  using fold_obj_set_id[of "[]" ps] by (simp add: spread_def)

lemma keys_copy_without: "fst ` set (copy_without ex v) = fst ` set (own_entries v) - set ex"
  by (auto simp: copy_without_def keys_fold_obj_set)

lemma copy_without_id:
  "wf_props ps \<Longrightarrow> set ex \<inter> fst ` set ps = {} \<Longrightarrow> copy_without ex (JObj ps) = ps"
proof -
  assume w: "wf_props ps" and e: "set ex \<inter> fst ` set ps = {}"
  have "filter (\<lambda>(k, x). k \<notin> set ex) ps = ps"
    using e by (force simp: filter_id_conv disjoint_iff)
  then show ?thesis using fold_obj_set_id[of "[]" ps] w by (simp add: copy_without_def)
qed

lemma sanitizePart_idem: "sanitizePart (sanitizePart p) = sanitizePart p"
proof (cases "\<not> truthy p \<or> \<not> is_object p")
  case True then show ?thesis by (simp add: sanitizePart_def)
next
  case False
  have "copy_without [''thoughtSignature''] (JObj (copy_without [''thoughtSignature''] p))
        = copy_without [''thoughtSignature''] p"
    by (rule copy_without_id) (auto simp: wf_copy_without keys_copy_without)
  with False show ?thesis by (simp add: sanitizePart_def)
qed

lemma update_ins_prop: "k \<notin> fst ` set ps \<Longrightarrow> AList.update k v (ins_prop k v' ps) = ins_prop k v ps"
  by (induction ps) auto

lemma obj_set_idem: "obj_set k v (obj_set k v' ps) = obj_set k v ps"
  by (auto simp: obj_set_def dom_update set_ins_prop update_ins_prop)

lemma sanitizeCandidate_obj:
  "truthy c \<Longrightarrow> is_object c \<Longrightarrow> sanitizeCandidate c i = JObj (with_content (with_index i (spread c [])))"
  by (simp add: sanitizeCandidate_def with_index_def with_content_def Let_def)

lemma sanitizeCandidate_prim:
  "\<not> truthy c \<or> \<not> is_object c \<Longrightarrow> sanitizeCandidate c i = c"
  by (simp add: sanitizeCandidate_def)

lemma wf_with_index: "wf_props r \<Longrightarrow> wf_props (with_index i r)"
  by (simp add: with_index_def wf_obj_set)

lemma wf_with_content: "wf_props r \<Longrightarrow> wf_props (with_content r)"
  by (simp add: with_content_def wf_obj_set)

lemma own_with_index_index: "own (with_index i r) ''index'' \<noteq> JUndefined"
  by (simp add: with_index_def own_obj_set)

lemma with_index_idem: "own r ''index'' \<noteq> JUndefined \<Longrightarrow> with_index i r = r"
  by (simp add: with_index_def)

lemma own_with_content: "k \<noteq> ''content'' \<Longrightarrow> own (with_content r) k = own r k"
  by (simp add: with_content_def own_obj_set)

lemma with_content_idem: "with_content (with_content r) = with_content r"
proof (cases "truthy (own r ''content'') \<and> isArray (member (own r ''content'') ''parts'')")
  case False
  then have "with_content r = r" by (auto simp: with_content_def)
  then show ?thesis by simp
next
  case True
  define ps where "ps = elems (member (own r ''content'') ''parts'')"
  define P where "P = obj_set ''parts'' (JArr (map sanitizePart ps)) (spread (own r ''content'') [])"
  have r': "with_content r = obj_set ''content'' (JObj P) r"
    using True by (simp add: with_content_def P_def ps_def)
  have wfP: "wf_props P" by (simp add: P_def wf_obj_set wf_spread)
  have c': "own (with_content r) ''content'' = JObj P" by (simp add: r' own_obj_set)
  have m: "member (JObj P) ''parts'' = JArr (map sanitizePart ps)"
    by (simp add: member_def P_def own_obj_set)
  have "with_content (with_content r) =
        obj_set ''content'' (JObj (obj_set ''parts'' (JArr (map sanitizePart (map sanitizePart ps))) P))
          (with_content r)"
    unfolding with_content_def [of "with_content r"] c' m
    by (simp add: spread_obj_id wfP)
  also have "map sanitizePart (map sanitizePart ps) = map sanitizePart ps"
    by (simp add: sanitizePart_idem)
  also have "obj_set ''parts'' (JArr (map sanitizePart ps)) P = P"
    by (simp add: P_def obj_set_idem)
  finally show ?thesis by (simp add: r' obj_set_idem)
qed

lemma sanitizeCandidate_idem: "sanitizeCandidate (sanitizeCandidate c i) i = sanitizeCandidate c i"
proof (cases "\<not> truthy c \<or> \<not> is_object c")
  case True
  then show ?thesis by (simp add: sanitizeCandidate_prim)
next
  case False
  define r where "r = with_content (with_index i (spread c []))"
  have s: "sanitizeCandidate c i = JObj r" using False by (simp add: sanitizeCandidate_obj r_def)
  have wf: "wf_props r" by (simp add: r_def wf_with_content wf_with_index wf_spread)
  have ix: "own r ''index'' \<noteq> JUndefined"
    by (simp add: r_def own_with_content own_with_index_index)
  have "sanitizeCandidate (JObj r) i = JObj (with_content (with_index i r))"
    by (simp add: sanitizeCandidate_obj spread_obj_id wf)
  also have "with_index i r = r" using ix by (rule with_index_idem)
  also have "with_content r = r" by (simp add: r_def with_content_idem)
  finally show ?thesis by (simp add: s)
qed

text \<open>
  C7. \<^verbatim>\<open>sanitizeCandidate\<close> is idempotent: sanitizing the result of
  \<^verbatim>\<open>sanitizeCandidate(c, i)\<close> again at the same position \<open>i\<close> gives the same value, for
  every value \<open>c\<close> and every integer \<open>i\<close>.
\<close>

theorem sanitizeCandidate_idempotent: "sanitizeCandidate (sanitizeCandidate c i) i = sanitizeCandidate c i"
  by (rule sanitizeCandidate_idem)

lemmas js_eval = sanitizeCandidate_def sanitizePart_def extractGeminiResponse_def spread_def copy_without_def
  obj_set_def own_def member_def is_array_index_def is_digit_def mapi_def Let_def

lemma distinct_own_entries: "wf_val v \<Longrightarrow> distinct (map fst (own_entries v))"
proof (cases v)
  case (JArr xs)
  then show ?thesis using keys_enumerate[of "\<lambda>x. x" 0 xs]
    by (simp add: distinct_map inj_digits_of inj_on_def injD[OF inj_digits_of])
next
  case (JStr s)
  then show ?thesis using keys_enumerate[of "\<lambda>c. JStr [c]" 0 s]
    by (simp add: distinct_map inj_digits_of inj_on_def injD[OF inj_digits_of])
qed simp_all

lemma own_notin: "k \<notin> fst ` set es \<Longrightarrow> own es k = JUndefined"
  by (simp add: own_def map_of_eq_None_iff [THEN iffD2])

lemma own_fold_obj_set_Nil:
  "distinct (map fst es) \<Longrightarrow> own (fold (\<lambda>(k, x). obj_set k x) es []) k = own es k"
  by (simp add: own_fold_obj_set own_Nil own_notin)

lemma own_spread: "wf_val v \<Longrightarrow> own (spread v []) k = member v k"
  by (simp add: spread_def member_def own_fold_obj_set_Nil distinct_own_entries)

lemma keys_spread: "fst ` set (spread v []) = fst ` set (own_entries v)"
  by (simp add: spread_def keys_fold_obj_set)

lemma map_of_filter_keys:
  "map_of (filter (\<lambda>(k, x). P k) es) k = (if P k then map_of es k else None)"
  by (induction es) auto

lemma own_copy_without:
  "wf_val v \<Longrightarrow> own (copy_without ex v) k = (if k \<in> set ex then JUndefined else member v k)"
proof -
  assume w: "wf_val v"
  let ?es = "filter (\<lambda>(k, x). k \<notin> set ex) (own_entries v)"
  have d: "distinct (map fst ?es)" using distinct_own_entries[OF w] by (simp add: distinct_map_filter)
  have "own (copy_without ex v) k = own ?es k"
    using own_fold_obj_set_Nil[OF d, of k] by (simp add: copy_without_def)
  also have "\<dots> = (if k \<in> set ex then JUndefined else member v k)"
    by (simp add: own_def member_def map_of_filter_keys)
  finally show ?thesis .
qed

lemma member_truthy: "member v k \<noteq> JUndefined \<Longrightarrow> truthy v"
  by (cases v) (auto simp: member_def own_Nil)

lemma wf_val_own: "\<forall>p \<in> set ps. wf_val (snd p) \<Longrightarrow> wf_val (own ps k)"
  by (auto simp: own_def split: option.splits dest!: map_of_SomeD)

lemma wf_val_member: "wf_val v \<Longrightarrow> wf_val (member v k)"
proof (cases v)
  case (JObj ps)
  assume "wf_val v"
  with JObj show ?thesis by (simp add: member_def wf_val_own)
next
  case (JArr xs)
  assume "wf_val v"
  with JArr show ?thesis
    by (auto simp: member_def enumerate_eq_zip intro!: wf_val_own dest!: set_zip_rightD)
next
  case (JStr s)
  then show ?thesis by (auto simp: member_def intro!: wf_val_own)
qed (simp_all add: member_def own_Nil)

lemma sanitizePart_spec:
  assumes "wf_val p"
  shows "(\<not> truthy p \<or> \<not> is_object p \<longrightarrow> sanitizePart p = p) \<and>
         (truthy p \<and> is_object p \<longrightarrow>
            (\<exists>q. sanitizePart p = JObj q
               \<and> fst ` set q = fst ` set (own_entries p) - {''thoughtSignature''}
               \<and> (\<forall>k. k \<noteq> ''thoughtSignature'' \<longrightarrow> own q k = member p k)))"
  using assms by (simp add: sanitizePart_def keys_copy_without own_copy_without)


lemma own_with_index:
  "own (with_index i r) k =
     (if k = ''index'' \<and> own r ''index'' = JUndefined then JNum i 0 else own r k)"
  by (simp add: with_index_def own_obj_set)

lemma keys_with_content: "fst ` set (with_content r) \<subseteq> insert ''content'' (fst ` set r)"
  by (auto simp: with_content_def keys_obj_set)

lemma own_defined_key: "own r k \<noteq> JUndefined \<Longrightarrow> k \<in> fst ` set r"
  using own_notin by blast

lemma keys_with_index:
  "fst ` set (with_index i r) = insert ''index'' (fst ` set r)"
  using own_defined_key[of r "''index''"] by (auto simp: with_index_def keys_obj_set)

lemma keys_with_content_eq: "fst ` set (with_content r) = fst ` set r"
proof (cases "truthy (own r ''content'') \<and> isArray (member (own r ''content'') ''parts'')")
  case True
  then have "own r ''content'' \<noteq> JUndefined" by auto
  then have "''content'' \<in> fst ` set r" by (rule own_defined_key)
  with True show ?thesis by (auto simp: with_content_def keys_obj_set)
next
  case False
  then show ?thesis by (auto simp: with_content_def)
qed

text \<open>
  C1. For a value \<open>c\<close> whose objects have distinct keys and an integer \<open>i\<close>:
  \<^verbatim>\<open>sanitizeCandidate(c, i)\<close> is \<open>c\<close> itself when \<open>c\<close> is \<^verbatim>\<open>null\<close> or not an object.
  Otherwise it is an object \<open>r\<close> with the keys of \<open>c\<close> and \<^verbatim>\<open>index\<close>; \<^verbatim>\<open>r.index\<close> is
  \<^verbatim>\<open>c.index\<close> when that is defined and \<open>i\<close> otherwise; every property other than
  \<^verbatim>\<open>index\<close> and \<^verbatim>\<open>content\<close> is that of \<open>c\<close>; \<^verbatim>\<open>r.content\<close> is \<^verbatim>\<open>c.content\<close> when
  \<^verbatim>\<open>c.content.parts\<close> is not an array; and when it is the array \<open>ps\<close>, \<^verbatim>\<open>r.content\<close> is
  an object with the keys of \<^verbatim>\<open>c.content\<close>, all properties but \<^verbatim>\<open>parts\<close> those of
  \<^verbatim>\<open>c.content\<close>, and \<^verbatim>\<open>parts\<close> the array of the sanitized parts in the same order and
  of the same length, where a part that is an object loses exactly the key
  \<^verbatim>\<open>thoughtSignature\<close> and keeps every other property, and any other part is unchanged.
  In particular
  \<^verbatim>\<open>sanitizeCandidate({content: {parts: [{text: "a", thoughtSignature: "x"}]}}, 2)\<close> is the
  object with the two properties \<^verbatim>\<open>content: {parts: [{text: "a"}]}\<close> and \<^verbatim>\<open>index: 2\<close>
  (listed here in the order in which the code creates them).
\<close>

theorem sanitizeCandidate_spec:
  "(wf_val c \<longrightarrow>
    (c = JNull \<or> \<not> is_object c \<longrightarrow> sanitizeCandidate c i = c) \<and>
    (c \<noteq> JNull \<and> is_object c \<longrightarrow>
      (\<exists>r. sanitizeCandidate c i = JObj r
         \<and> fst ` set r = insert ''index'' (fst ` set (own_entries c))
         \<and> own r ''index'' =
             (if member c ''index'' = JUndefined then JNum i 0 else member c ''index'')
         \<and> (\<forall>k. k \<noteq> ''index'' \<and> k \<noteq> ''content'' \<longrightarrow> own r k = member c k)
         \<and> (\<not> isArray (member (member c ''content'') ''parts'') \<longrightarrow>
               own r ''content'' = member c ''content'')
         \<and> (\<forall>ps. member (member c ''content'') ''parts'' = JArr ps \<longrightarrow>
              (\<exists>rc. own r ''content'' = JObj rc
                 \<and> fst ` set rc = fst ` set (own_entries (member c ''content''))
                 \<and> own rc ''parts'' = JArr (map sanitizePart ps)
                 \<and> length (map sanitizePart ps) = length ps
                 \<and> (\<forall>k. k \<noteq> ''parts'' \<longrightarrow> own rc k = member (member c ''content'') k)
                 \<and> (\<forall>p \<in> set ps.
                      (\<not> truthy p \<or> \<not> is_object p \<longrightarrow> sanitizePart p = p) \<and>
                      (truthy p \<and> is_object p \<longrightarrow>
                         (\<exists>q. sanitizePart p = JObj q
                            \<and> fst ` set q = fst ` set (own_entries p) - {''thoughtSignature''}
                            \<and> (\<forall>k. k \<noteq> ''thoughtSignature'' \<longrightarrow>
                                   own q k = member p k)))))))))
   \<and> sanitizeCandidate
        (JObj [(''content'', JObj [(''parts'',
           JArr [JObj [(''text'', JStr ''a''), (''thoughtSignature'', JStr ''x'')]])])]) 2
      = JObj [(''content'', JObj [(''parts'', JArr [JObj [(''text'', JStr ''a'')]])]),
              (''index'', JNum 2 0)]"
proof (intro conjI impI)
  assume "wf_val c" "c = JNull \<or> \<not> is_object c"
  then show "sanitizeCandidate c i = c" by (auto simp: sanitizeCandidate_prim)
next
  assume wf: "wf_val c" and ob: "c \<noteq> JNull \<and> is_object c"
  then have tr: "truthy c" by (cases c) auto
  define r0 where "r0 = spread c []"
  define r1 where "r1 = with_index i r0"
  define r where "r = with_content r1"
  define ct where "ct = member c ''content''"
  have s: "sanitizeCandidate c i = JObj r"
    using tr ob by (simp add: sanitizeCandidate_obj r_def r1_def r0_def)
  have o0: "\<And>k. own r0 k = member c k" by (simp add: r0_def own_spread wf)
  have o1c: "own r1 ''content'' = ct" by (simp add: r1_def own_with_index o0 ct_def)
  have wct: "wf_val ct" by (simp add: ct_def wf_val_member wf)
  have keys: "fst ` set r = insert ''index'' (fst ` set (own_entries c))"
    by (simp add: r_def r1_def r0_def keys_with_content_eq keys_with_index keys_spread)
  have idx: "own r ''index'' =
      (if member c ''index'' = JUndefined then JNum i 0 else member c ''index'')"
    by (simp add: r_def r1_def own_with_content own_with_index o0)
  have oth: "\<forall>k. k \<noteq> ''index'' \<and> k \<noteq> ''content'' \<longrightarrow> own r k = member c k"
    by (simp add: r_def r1_def own_with_content own_with_index o0)
  have noarr: "\<not> isArray (member ct ''parts'') \<longrightarrow> own r ''content'' = ct"
    by (auto simp: r_def with_content_def o1c)
  have arr: "\<forall>ps. member ct ''parts'' = JArr ps \<longrightarrow>
      (\<exists>rc. own r ''content'' = JObj rc
         \<and> fst ` set rc = fst ` set (own_entries ct)
         \<and> own rc ''parts'' = JArr (map sanitizePart ps)
         \<and> length (map sanitizePart ps) = length ps
         \<and> (\<forall>k. k \<noteq> ''parts'' \<longrightarrow> own rc k = member ct k)
         \<and> (\<forall>p \<in> set ps.
              (\<not> truthy p \<or> \<not> is_object p \<longrightarrow> sanitizePart p = p) \<and>
              (truthy p \<and> is_object p \<longrightarrow>
                 (\<exists>q. sanitizePart p = JObj q
                    \<and> fst ` set q = fst ` set (own_entries p) - {''thoughtSignature''}
                    \<and> (\<forall>k. k \<noteq> ''thoughtSignature'' \<longrightarrow> own q k = member p k)))))"
  proof (intro allI impI)
    fix ps assume m: "member ct ''parts'' = JArr ps"
    then have tct: "truthy ct" using member_truthy[of ct "''parts''"] by simp
    define rc where "rc = obj_set ''parts'' (JArr (map sanitizePart ps)) (spread ct [])"
    have pk: "''parts'' \<in> fst ` set (own_entries ct)"
      using m own_defined_key[of "own_entries ct" "''parts''"] by (simp add: member_def)
    have "r = obj_set ''content'' (JObj rc) r1"
      using m tct by (simp add: r_def with_content_def o1c rc_def)
    then have 1: "own r ''content'' = JObj rc" by (simp add: own_obj_set)
    have 2: "fst ` set rc = fst ` set (own_entries ct)"
      using pk by (auto simp: rc_def keys_obj_set keys_spread)
    have 3: "own rc ''parts'' = JArr (map sanitizePart ps)" by (simp add: rc_def own_obj_set)
    have 4: "\<forall>k. k \<noteq> ''parts'' \<longrightarrow> own rc k = member ct k"
      by (simp add: rc_def own_obj_set own_spread wct)
    have "wf_val (JArr ps)" using wf_val_member[OF wct, of "''parts''"] m by simp
    then have 5: "\<forall>p \<in> set ps. wf_val p" by simp
    show "\<exists>rc. own r ''content'' = JObj rc
         \<and> fst ` set rc = fst ` set (own_entries ct)
         \<and> own rc ''parts'' = JArr (map sanitizePart ps)
         \<and> length (map sanitizePart ps) = length ps
         \<and> (\<forall>k. k \<noteq> ''parts'' \<longrightarrow> own rc k = member ct k)
         \<and> (\<forall>p \<in> set ps.
              (\<not> truthy p \<or> \<not> is_object p \<longrightarrow> sanitizePart p = p) \<and>
              (truthy p \<and> is_object p \<longrightarrow>
                 (\<exists>q. sanitizePart p = JObj q
                    \<and> fst ` set q = fst ` set (own_entries p) - {''thoughtSignature''}
                    \<and> (\<forall>k. k \<noteq> ''thoughtSignature'' \<longrightarrow> own q k = member p k))))"
      using 1 2 3 4 5 sanitizePart_spec by (intro exI[of _ rc]) simp
  qed
  show "\<exists>r. sanitizeCandidate c i = JObj r
         \<and> fst ` set r = insert ''index'' (fst ` set (own_entries c))
         \<and> own r ''index'' =
             (if member c ''index'' = JUndefined then JNum i 0 else member c ''index'')
         \<and> (\<forall>k. k \<noteq> ''index'' \<and> k \<noteq> ''content'' \<longrightarrow> own r k = member c k)
         \<and> (\<not> isArray (member (member c ''content'') ''parts'') \<longrightarrow>
               own r ''content'' = member c ''content'')
         \<and> (\<forall>ps. member (member c ''content'') ''parts'' = JArr ps \<longrightarrow>
              (\<exists>rc. own r ''content'' = JObj rc
                 \<and> fst ` set rc = fst ` set (own_entries (member c ''content''))
                 \<and> own rc ''parts'' = JArr (map sanitizePart ps)
                 \<and> length (map sanitizePart ps) = length ps
                 \<and> (\<forall>k. k \<noteq> ''parts'' \<longrightarrow> own rc k = member (member c ''content'') k)
                 \<and> (\<forall>p \<in> set ps.
                      (\<not> truthy p \<or> \<not> is_object p \<longrightarrow> sanitizePart p = p) \<and>
                      (truthy p \<and> is_object p \<longrightarrow>
                         (\<exists>q. sanitizePart p = JObj q
                            \<and> fst ` set q = fst ` set (own_entries p) - {''thoughtSignature''}
                            \<and> (\<forall>k. k \<noteq> ''thoughtSignature'' \<longrightarrow>
                                   own q k = member p k))))))"
    using s keys idx oth noarr arr unfolding ct_def by (intro exI[of _ r]) blast
next
  show "sanitizeCandidate
        (JObj [(''content'', JObj [(''parts'',
           JArr [JObj [(''text'', JStr ''a''), (''thoughtSignature'', JStr ''x'')]])])]) 2
      = JObj [(''content'', JObj [(''parts'', JArr [JObj [(''text'', JStr ''a'')]])]),
              (''index'', JNum 2 0)]"
    by (simp add: js_eval)
qed

theorem sanitizeCandidate_spec_witness:
  "wf_val (JObj [(''content'', JObj [(''parts'',
           JArr [JObj [(''text'', JStr ''a''), (''thoughtSignature'', JStr ''x'')]])])])
   \<and> sanitizeCandidate
        (JObj [(''content'', JObj [(''parts'',
           JArr [JObj [(''text'', JStr ''a''), (''thoughtSignature'', JStr ''x'')]])])]) 2
      = JObj [(''content'', JObj [(''parts'', JArr [JObj [(''text'', JStr ''a'')]])]),
              (''index'', JNum 2 0)]
   \<and> sanitizeCandidate JNull 2 = JNull \<and> sanitizeCandidate (JStr ''x'') 2 = JStr ''x''"
  using sanitizeCandidate_spec
    [of "JObj [(''content'', JObj [(''parts'',
           JArr [JObj [(''text'', JStr ''a''), (''thoughtSignature'', JStr ''x'')]])])]" 2]
    sanitizeCandidate_spec [of JNull 2] sanitizeCandidate_spec [of "JStr ''x''" 2]
  by simp

theorem sanitizeCandidate_idempotent_witness:
  "sanitizeCandidate
     (sanitizeCandidate
        (JObj [(''content'', JObj [(''parts'',
           JArr [JObj [(''text'', JStr ''a''), (''thoughtSignature'', JStr ''x'')]])])]) 2) 2
   = JObj [(''content'', JObj [(''parts'', JArr [JObj [(''text'', JStr ''a'')]])]),
           (''index'', JNum 2 0)]"
  using sanitizeCandidate_idempotent
    [of "JObj [(''content'', JObj [(''parts'',
           JArr [JObj [(''text'', JStr ''a''), (''thoughtSignature'', JStr ''x'')]])])]" 2]
  by (simp add: js_eval)

lemma length_mapi: "length (mapi f xs) = length xs"
  by (simp add: mapi_def)

lemma nth_mapi: "j < length xs \<Longrightarrow> mapi f xs ! j = f (xs ! j) (int j)"
  by (simp add: mapi_def nth_enumerate_eq)

lemma truthy_member: "truthy (member v k) \<Longrightarrow> truthy v"
  by (rule member_truthy [of v k]) auto

text \<open>
  C2 (amended). For a value \<open>r\<close> whose objects have distinct keys,
  \<^verbatim>\<open>extractGeminiResponse(r)\<close> takes as payload \<^verbatim>\<open>r.response\<close> when that is truthy, and
  \<open>r\<close> itself otherwise (also when the key \<^verbatim>\<open>response\<close> is present with a falsy value).
  A payload whose \<^verbatim>\<open>candidates\<close> is not an array is returned as it is. Otherwise the result
  is an object with the keys of the payload, every property but \<^verbatim>\<open>candidates\<close> that of the
  payload, and \<^verbatim>\<open>candidates\<close> the array of the same length whose element at position
  \<open>j\<close> is \<^verbatim>\<open>sanitizeCandidate\<close> of the original element at \<open>j\<close> and of \<open>j\<close>.
\<close>

theorem extractGeminiResponse_spec:
  "wf_val r \<longrightarrow>
     (\<exists>payload. payload = (if truthy (member r ''response'') then member r ''response'' else r)
        \<and> (\<not> isArray (member payload ''candidates'') \<longrightarrow> extractGeminiResponse r = payload)
        \<and> (\<forall>cs. member payload ''candidates'' = JArr cs \<longrightarrow>
             (\<exists>q. extractGeminiResponse r = JObj q
                \<and> fst ` set q = fst ` set (own_entries payload)
                \<and> (\<forall>k. k \<noteq> ''candidates'' \<longrightarrow> own q k = member payload k)
                \<and> own q ''candidates'' = JArr (mapi sanitizeCandidate cs)
                \<and> length (mapi sanitizeCandidate cs) = length cs
                \<and> (\<forall>j < length cs.
                      mapi sanitizeCandidate cs ! j = sanitizeCandidate (cs ! j) (int j)))))"
proof
  assume wf: "wf_val r"
  define payload where "payload = (if truthy (member r ''response'') then member r ''response'' else r)"
  have resp: "(if truthy r \<and> truthy (member r ''response'') then member r ''response'' else r) = payload"
    using truthy_member[of r "''response''"] by (auto simp: payload_def)
  have wfp: "wf_val payload" by (simp add: payload_def wf wf_val_member)
  have e: "extractGeminiResponse r =
     (if \<not> truthy payload \<or> \<not> isArray (member payload ''candidates'') then payload
      else JObj (obj_set ''candidates''
                      (JArr (mapi sanitizeCandidate (elems (member payload ''candidates''))))
                      (spread payload [])))"
    unfolding extractGeminiResponse_def resp by (simp add: Let_def)
  have a: "\<not> isArray (member payload ''candidates'') \<longrightarrow> extractGeminiResponse r = payload"
    by (simp add: e)
  have b: "\<forall>cs. member payload ''candidates'' = JArr cs \<longrightarrow>
             (\<exists>q. extractGeminiResponse r = JObj q
                \<and> fst ` set q = fst ` set (own_entries payload)
                \<and> (\<forall>k. k \<noteq> ''candidates'' \<longrightarrow> own q k = member payload k)
                \<and> own q ''candidates'' = JArr (mapi sanitizeCandidate cs)
                \<and> length (mapi sanitizeCandidate cs) = length cs
                \<and> (\<forall>j < length cs.
                      mapi sanitizeCandidate cs ! j = sanitizeCandidate (cs ! j) (int j)))"
  proof (intro allI impI)
    fix cs assume m: "member payload ''candidates'' = JArr cs"
    then have t: "truthy payload" using member_truthy[of payload "''candidates''"] by simp
    have ck: "''candidates'' \<in> fst ` set (own_entries payload)"
      using m own_defined_key[of "own_entries payload" "''candidates''"] by (simp add: member_def)
    define q where "q = obj_set ''candidates'' (JArr (mapi sanitizeCandidate cs)) (spread payload [])"
    have 1: "extractGeminiResponse r = JObj q" using m t by (simp add: e q_def)
    have 2: "fst ` set q = fst ` set (own_entries payload)"
      using ck by (auto simp: q_def keys_obj_set keys_spread)
    have 3: "\<forall>k. k \<noteq> ''candidates'' \<longrightarrow> own q k = member payload k"
      by (simp add: q_def own_obj_set own_spread wfp)
    have 4: "own q ''candidates'' = JArr (mapi sanitizeCandidate cs)"
      by (simp add: q_def own_obj_set)
    show "\<exists>q. extractGeminiResponse r = JObj q
                \<and> fst ` set q = fst ` set (own_entries payload)
                \<and> (\<forall>k. k \<noteq> ''candidates'' \<longrightarrow> own q k = member payload k)
                \<and> own q ''candidates'' = JArr (mapi sanitizeCandidate cs)
                \<and> length (mapi sanitizeCandidate cs) = length cs
                \<and> (\<forall>j < length cs.
                      mapi sanitizeCandidate cs ! j = sanitizeCandidate (cs ! j) (int j))"
      using 1 2 3 4 by (intro exI[of _ q]) (simp add: length_mapi nth_mapi)
  qed
  show "\<exists>payload. payload = (if truthy (member r ''response'') then member r ''response'' else r)
        \<and> (\<not> isArray (member payload ''candidates'') \<longrightarrow> extractGeminiResponse r = payload)
        \<and> (\<forall>cs. member payload ''candidates'' = JArr cs \<longrightarrow>
             (\<exists>q. extractGeminiResponse r = JObj q
                \<and> fst ` set q = fst ` set (own_entries payload)
                \<and> (\<forall>k. k \<noteq> ''candidates'' \<longrightarrow> own q k = member payload k)
                \<and> own q ''candidates'' = JArr (mapi sanitizeCandidate cs)
                \<and> length (mapi sanitizeCandidate cs) = length cs
                \<and> (\<forall>j < length cs.
                      mapi sanitizeCandidate cs ! j = sanitizeCandidate (cs ! j) (int j))))"
    using a b payload_def by blast
qed

theorem extractGeminiResponse_spec_witness:
  "wf_val (JObj [(''response'', JObj [(''candidates'', JArr [JObj [(''content'',
       JObj [(''parts'', JArr [JObj [(''text'', JStr ''hi''), (''thoughtSignature'', JStr ''z'')]])])]]),
       (''usageMetadata'', JObj [])])])
   \<and> extractGeminiResponse (JObj [(''response'', JObj [(''candidates'', JArr [JObj [(''content'',
       JObj [(''parts'', JArr [JObj [(''text'', JStr ''hi''), (''thoughtSignature'', JStr ''z'')]])])]]),
       (''usageMetadata'', JObj [])])])
     = JObj [(''candidates'', JArr [JObj [(''content'',
         JObj [(''parts'', JArr [JObj [(''text'', JStr ''hi'')]])]), (''index'', JNum 0 0)]]),
         (''usageMetadata'', JObj [])]"
  using extractGeminiResponse_spec
    [of "JObj [(''response'', JObj [(''candidates'', JArr [JObj [(''content'',
       JObj [(''parts'', JArr [JObj [(''text'', JStr ''hi''), (''thoughtSignature'', JStr ''z'')]])])]]),
       (''usageMetadata'', JObj [])])]"]
  by (simp add: js_eval)

theorem extractGeminiResponse_key_presence_counterexample:
  "extractGeminiResponse (JObj [(''response'', JNull)]) = JObj [(''response'', JNull)]
   \<and> spec_extractGeminiResponse (JObj [(''response'', JNull)]) = JNull
   \<and> extractGeminiResponse (JObj [(''response'', JNull)])
       \<noteq> spec_extractGeminiResponse (JObj [(''response'', JNull)])"
  by (simp add: js_eval spec_extractGeminiResponse_def has_key_def)

lemma convert_ok:
  "ok_input req token \<Longrightarrow>
   convertGeminiToAntigravity cfg rid model req token =
     Inr (JObj [(''project'', member token ''projectId''), (''requestId'', rid),
                (''request'', JObj (request_props cfg req token)),
                (''model'', model), (''userAgent'', JStr ''antigravity'')])"
  by (simp add: ok_input_def convertGeminiToAntigravity_def mergedGenerationConfig_def Let_def
      request_props_def merged_of_def incoming_generationConfig_def rest_of_def nullish_def)

lemma convert_fail:
  "\<not> ok_input req token \<Longrightarrow> convertGeminiToAntigravity cfg rid model req token = Inl TypeError"
  by (auto simp: ok_input_def convertGeminiToAntigravity_def mergedGenerationConfig_def Let_def
      nullish_def)

lemma request_of_out:
  "request_of (JObj [(''project'', a), (''requestId'', b), (''request'', c), (''model'', d),
      (''userAgent'', e)]) = c"
  by (simp add: request_of_def member_def own_def)

lemma keys_rest_of:
  "fst ` set (rest_of req) = fst ` set (own_entries req)
     - {''contents'', ''generationConfig'', ''systemInstruction'', ''safetySettings''}"
  by (simp add: rest_of_def keys_copy_without)

lemma wf_props_distinct: "wf_props ps \<Longrightarrow> distinct (map fst ps)"
  by (simp add: wf_props_def)

lemma own_request_props:
  "own (request_props cfg req token) k =
     (if k \<in> fst ` set (rest_of req) then own (rest_of req) k
      else own [(''contents'', if member req ''contents'' = JUndefined then JArr []
                        else member req ''contents''),
        (''systemInstruction'', finalSystemInstruction cfg (member req ''systemInstruction'')),
        (''generationConfig'', JObj (merged_of cfg (incoming_generationConfig req))),
        (''sessionId'', member token ''sessionId'')] k)"
  unfolding request_props_def spread_def own_entries.simps
  by (rule own_fold_obj_set) (simp add: rest_of_def wf_props_distinct wf_copy_without)

lemma request_generationConfig:
  "own (request_props cfg req token) ''generationConfig''
     = JObj (merged_of cfg (incoming_generationConfig req))"
  by (simp add: own_request_props keys_rest_of own_Cons)

lemma request_systemInstruction:
  "own (request_props cfg req token) ''systemInstruction''
     = finalSystemInstruction cfg (member req ''systemInstruction'')"
  by (simp add: own_request_props keys_rest_of own_Cons)


lemma own_merged_of:
  "wf_val gc \<Longrightarrow> own (merged_of cfg gc) k =
     (if has_key gc k then member gc k
      else own [(''topP'', top_p (defaults cfg)), (''topK'', top_k (defaults cfg)),
                (''temperature'', temperature (defaults cfg)),
                (''maxOutputTokens'', max_tokens (defaults cfg)),
                (''candidateCount'', JNum 1 0)] k)"
proof -
  assume wf: "wf_val gc"
  note f = own_fold_obj_set[OF distinct_own_entries[OF wf]]
  show ?thesis
  proof (cases "has_key gc k")
    case True
    then have "k \<in> fst ` set (own_entries gc)" by (simp add: has_key_def)
    then have "own (merged_of cfg gc) k = own (own_entries gc) k"
      unfolding merged_of_def spread_def by (simp only: f if_True)
    with True show ?thesis by (simp add: member_def)
  next
    case False
    then have n: "k \<notin> fst ` set (own_entries gc)" by (simp add: has_key_def)
    then have u: "member gc k = JUndefined" by (simp add: member_def own_notin)
    have "own (merged_of cfg gc) k =
       own [(''topP'', js_coalesce (member gc ''topP'') (top_p (defaults cfg))),
         (''topK'', js_coalesce (member gc ''topK'') (top_k (defaults cfg))),
         (''temperature'', js_coalesce (member gc ''temperature'') (temperature (defaults cfg))),
         (''maxOutputTokens'',
            js_coalesce (member gc ''maxOutputTokens'') (max_tokens (defaults cfg))),
         (''candidateCount'', js_coalesce (member gc ''candidateCount'') (JNum 1 0))] k"
      unfolding merged_of_def spread_def using n by (simp only: f if_False)
    also have "\<dots> = own [(''topP'', top_p (defaults cfg)), (''topK'', top_k (defaults cfg)),
                (''temperature'', temperature (defaults cfg)),
                (''maxOutputTokens'', max_tokens (defaults cfg)),
                (''candidateCount'', JNum 1 0)] k"
      using u by (auto simp: own_Cons own_Nil js_coalesce_def nullish_def)
    finally show ?thesis using False by simp
  qed
qed

lemma wf_incoming: "wf_val req \<Longrightarrow> wf_val (incoming_generationConfig req)"
  by (simp add: incoming_generationConfig_def wf_val_member)

lemmas convert_eval = convertGeminiToAntigravity_def mergedGenerationConfig_def
  finalSystemInstruction_def js_or_def js_coalesce_def nullish_def ok_input_def
  example_config_def example_token_def request_of_def

lemma member_JObj: "member (JObj ps) k = own ps k"
  by (simp add: member_def)


lemma merged_of_empty:
  "merged_of cfg (JObj []) =
     [(''topP'', top_p (defaults cfg)), (''topK'', top_k (defaults cfg)),
      (''temperature'', temperature (defaults cfg)),
      (''maxOutputTokens'', max_tokens (defaults cfg)), (''candidateCount'', JNum 1 0)]"
  by (simp add: merged_of_def spread_def member_def own_Nil js_coalesce_def nullish_def)

text \<open>
  C4. For a request whose objects have distinct keys and that the translator accepts (the
  request and the token are not \<^verbatim>\<open>null\<close> or \<^verbatim>\<open>undefined\<close>, the request's
  \<^verbatim>\<open>generationConfig\<close> is not \<^verbatim>\<open>null\<close>), the translator returns a request whose
  \<^verbatim>\<open>request.generationConfig\<close> is an object in which every key that the incoming
  \<^verbatim>\<open>generationConfig\<close> supplies has the supplied value, and each of \<^verbatim>\<open>topP\<close>, \<^verbatim>\<open>topK\<close>,
  \<^verbatim>\<open>temperature\<close>, \<^verbatim>\<open>maxOutputTokens\<close> that is not supplied has the configured default
  \<^verbatim>\<open>top_p\<close>, \<^verbatim>\<open>top_k\<close>, \<^verbatim>\<open>temperature\<close>, \<^verbatim>\<open>max_tokens\<close>, and \<^verbatim>\<open>candidateCount\<close>, when not
  supplied, is 1. With an empty incoming \<^verbatim>\<open>generationConfig\<close> (or none) the merged object
  is exactly the four defaults and \<^verbatim>\<open>candidateCount: 1\<close>.
\<close>

theorem generationConfig_merge:
  "wf_val req \<and> ok_input req token \<longrightarrow>
     (\<exists>out merged.
        convertGeminiToAntigravity cfg rid model req token = Inr out
        \<and> member (request_of out) ''generationConfig'' = JObj merged
        \<and> (\<forall>k. has_key (incoming_generationConfig req) k \<longrightarrow>
               own merged k = member (incoming_generationConfig req) k)
        \<and> (\<not> has_key (incoming_generationConfig req) ''topP'' \<longrightarrow>
               own merged ''topP'' = top_p (defaults cfg))
        \<and> (\<not> has_key (incoming_generationConfig req) ''topK'' \<longrightarrow>
               own merged ''topK'' = top_k (defaults cfg))
        \<and> (\<not> has_key (incoming_generationConfig req) ''temperature'' \<longrightarrow>
               own merged ''temperature'' = temperature (defaults cfg))
        \<and> (\<not> has_key (incoming_generationConfig req) ''maxOutputTokens'' \<longrightarrow>
               own merged ''maxOutputTokens'' = max_tokens (defaults cfg))
        \<and> (\<not> has_key (incoming_generationConfig req) ''candidateCount'' \<longrightarrow>
               own merged ''candidateCount'' = JNum 1 0)
        \<and> (incoming_generationConfig req = JObj [] \<longrightarrow>
               merged = [(''topP'', top_p (defaults cfg)), (''topK'', top_k (defaults cfg)),
                         (''temperature'', temperature (defaults cfg)),
                         (''maxOutputTokens'', max_tokens (defaults cfg)),
                         (''candidateCount'', JNum 1 0)]))"
  (is "_ \<longrightarrow> ?concl")
proof
  assume a: "wf_val req \<and> ok_input req token"
  define gc where "gc = incoming_generationConfig req"
  have wf: "wf_val gc" using a by (simp add: gc_def wf_incoming)
  note o = own_merged_of[OF wf, of cfg]
  have 1: "convertGeminiToAntigravity cfg rid model req token =
      Inr (JObj [(''project'', member token ''projectId''), (''requestId'', rid),
                (''request'', JObj (request_props cfg req token)),
                (''model'', model), (''userAgent'', JStr ''antigravity'')])"
    using a by (simp add: convert_ok)
  have 2: "member (request_of (JObj [(''project'', member token ''projectId''), (''requestId'', rid),
                (''request'', JObj (request_props cfg req token)),
                (''model'', model), (''userAgent'', JStr ''antigravity'')])) ''generationConfig''
           = JObj (merged_of cfg gc)"
    by (simp add: request_of_out member_JObj request_generationConfig gc_def)
  have 3: "\<forall>k. has_key gc k \<longrightarrow> own (merged_of cfg gc) k = member gc k" by (simp add: o)
  have 4: "\<not> has_key gc ''topP'' \<longrightarrow> own (merged_of cfg gc) ''topP'' = top_p (defaults cfg)"
    "\<not> has_key gc ''topK'' \<longrightarrow> own (merged_of cfg gc) ''topK'' = top_k (defaults cfg)"
    "\<not> has_key gc ''temperature'' \<longrightarrow>
       own (merged_of cfg gc) ''temperature'' = temperature (defaults cfg)"
    "\<not> has_key gc ''maxOutputTokens'' \<longrightarrow>
       own (merged_of cfg gc) ''maxOutputTokens'' = max_tokens (defaults cfg)"
    "\<not> has_key gc ''candidateCount'' \<longrightarrow> own (merged_of cfg gc) ''candidateCount'' = JNum 1 0"
    by (simp_all add: o own_Cons)
  have 5: "gc = JObj [] \<longrightarrow> merged_of cfg gc =
       [(''topP'', top_p (defaults cfg)), (''topK'', top_k (defaults cfg)),
        (''temperature'', temperature (defaults cfg)),
        (''maxOutputTokens'', max_tokens (defaults cfg)), (''candidateCount'', JNum 1 0)]"
    by (simp add: merged_of_empty)
  show ?concl
    using 1 2 3 4 5 unfolding gc_def by blast
qed

theorem generationConfig_merge_witness:
  "wf_val (JObj [(''generationConfig'', JObj [(''temperature'', JNum 2 1)])])
   \<and> ok_input (JObj [(''generationConfig'', JObj [(''temperature'', JNum 2 1)])]) example_token
   \<and> convertGeminiToAntigravity example_config (JStr ''req-1'') (JStr ''gemini-pro'')
        (JObj [(''generationConfig'', JObj [(''temperature'', JNum 2 1)])]) example_token
      = Inr (JObj [(''project'', JStr ''p-1''), (''requestId'', JStr ''req-1''),
           (''request'', JObj [(''contents'', JArr []),
              (''systemInstruction'',
                 JObj [(''role'', JStr ''user''), (''parts'', JArr [JObj [(''text'', JStr '''')]])]),
              (''generationConfig'',
                 JObj [(''topP'', JNum 85 2), (''topK'', JNum 50 0), (''temperature'', JNum 2 1),
                       (''maxOutputTokens'', JNum 8096 0), (''candidateCount'', JNum 1 0)]),
              (''sessionId'', JStr ''s-1'')]),
           (''model'', JStr ''gemini-pro''), (''userAgent'', JStr ''antigravity'')])"
  using generationConfig_merge
    [of "JObj [(''generationConfig'', JObj [(''temperature'', JNum 2 1)])]" example_token
        example_config "JStr ''req-1''" "JStr ''gemini-pro''"]
  by (simp add: convert_eval js_eval)


text \<open>
  C5 (amended). For a request that the translator accepts, \<^verbatim>\<open>request.systemInstruction\<close> of
  the result is resolved by truthiness: (a) when the request's \<^verbatim>\<open>systemInstruction\<close> is
  truthy, the role is its \<^verbatim>\<open>role\<close> when that is truthy and \<^verbatim>\<open>"user"\<close> otherwise, and the
  parts are its \<^verbatim>\<open>parts\<close> when truthy and otherwise one part whose text is the configured
  instruction text (the empty string when that is not truthy); (b) when it is not truthy and
  the configured text is truthy, the result is \<^verbatim>\<open>{role: "user", parts: [{text: <configured text>}]}\<close>;
  (c) otherwise it is \<^verbatim>\<open>{role: "user", parts: [{text: ""}]}\<close>.
\<close>

theorem systemInstruction_resolution:
  "ok_input req token \<longrightarrow>
     (\<exists>out si.
        convertGeminiToAntigravity cfg rid model req token = Inr out
        \<and> si = member req ''systemInstruction''
        \<and> (truthy si \<longrightarrow>
              member (request_of out) ''systemInstruction'' =
                JObj [(''role'', if truthy (member si ''role'') then member si ''role''
                                else JStr ''user''),
                      (''parts'', if truthy (member si ''parts'') then member si ''parts''
                                 else JArr [JObj [(''text'',
                                        if truthy (systemInstruction cfg)
                                        then systemInstruction cfg else JStr '''')]])])
        \<and> (\<not> truthy si \<and> truthy (systemInstruction cfg) \<longrightarrow>
              member (request_of out) ''systemInstruction'' =
                JObj [(''role'', JStr ''user''),
                      (''parts'', JArr [JObj [(''text'', systemInstruction cfg)]])])
        \<and> (\<not> truthy si \<and> \<not> truthy (systemInstruction cfg) \<longrightarrow>
              member (request_of out) ''systemInstruction'' =
                JObj [(''role'', JStr ''user''), (''parts'', JArr [JObj [(''text'', JStr '''')]])]))"
  (is "_ \<longrightarrow> ?concl")
proof
  assume a: "ok_input req token"
  have 1: "convertGeminiToAntigravity cfg rid model req token =
      Inr (JObj [(''project'', member token ''projectId''), (''requestId'', rid),
                (''request'', JObj (request_props cfg req token)),
                (''model'', model), (''userAgent'', JStr ''antigravity'')])"
    using a by (simp add: convert_ok)
  have 2: "member (request_of (JObj [(''project'', member token ''projectId''), (''requestId'', rid),
                (''request'', JObj (request_props cfg req token)),
                (''model'', model), (''userAgent'', JStr ''antigravity'')])) ''systemInstruction''
           = finalSystemInstruction cfg (member req ''systemInstruction'')"
    by (simp add: request_of_out member_JObj request_systemInstruction)
  show ?concl
    unfolding 1 by (intro exI conjI, rule refl, rule refl)
      (simp_all only: 2, simp_all add: finalSystemInstruction_def js_or_def)
qed

theorem systemInstruction_resolution_witness:
  "ok_input (JObj [(''systemInstruction'', JObj [(''parts'', JArr [JObj [(''text'', JStr ''be brief'')]])])])
     example_token
   \<and> convertGeminiToAntigravity example_config (JStr ''req-1'') (JStr ''gemini-pro'')
        (JObj [(''systemInstruction'', JObj [(''parts'', JArr [JObj [(''text'', JStr ''be brief'')]])])])
        example_token
      = Inr (JObj [(''project'', JStr ''p-1''), (''requestId'', JStr ''req-1''),
           (''request'', JObj [(''contents'', JArr []),
              (''systemInstruction'',
                 JObj [(''role'', JStr ''user''),
                       (''parts'', JArr [JObj [(''text'', JStr ''be brief'')]])]),
              (''generationConfig'',
                 JObj [(''topP'', JNum 85 2), (''topK'', JNum 50 0), (''temperature'', JNum 1 0),
                       (''maxOutputTokens'', JNum 8096 0), (''candidateCount'', JNum 1 0)]),
              (''sessionId'', JStr ''s-1'')]),
           (''model'', JStr ''gemini-pro''), (''userAgent'', JStr ''antigravity'')])"
  using systemInstruction_resolution
    [of "JObj [(''systemInstruction'', JObj [(''parts'', JArr [JObj [(''text'', JStr ''be brief'')]])])]"
        example_token example_config "JStr ''req-1''" "JStr ''gemini-pro''"]
  by (simp add: convert_eval js_eval)

theorem systemInstruction_presence_counterexample:
  "convertGeminiToAntigravity example_config (JStr ''req-1'') (JStr ''gemini-pro'')
        (JObj [(''systemInstruction'',
           JObj [(''role'', JStr ''''), (''parts'', JArr [JObj [(''text'', JStr ''be brief'')]])])])
        example_token
      = Inr (JObj [(''project'', JStr ''p-1''), (''requestId'', JStr ''req-1''),
           (''request'', JObj [(''contents'', JArr []),
              (''systemInstruction'',
                 JObj [(''role'', JStr ''user''),
                       (''parts'', JArr [JObj [(''text'', JStr ''be brief'')]])]),
              (''generationConfig'',
                 JObj [(''topP'', JNum 85 2), (''topK'', JNum 50 0), (''temperature'', JNum 1 0),
                       (''maxOutputTokens'', JNum 8096 0), (''candidateCount'', JNum 1 0)]),
              (''sessionId'', JStr ''s-1'')]),
           (''model'', JStr ''gemini-pro''), (''userAgent'', JStr ''antigravity'')])
   \<and> spec_finalSystemInstruction example_config
        (JObj [(''systemInstruction'',
           JObj [(''role'', JStr ''''), (''parts'', JArr [JObj [(''text'', JStr ''be brief'')]])])])
      = JObj [(''role'', JStr ''''), (''parts'', JArr [JObj [(''text'', JStr ''be brief'')]])]
   \<and> finalSystemInstruction example_config
        (JObj [(''role'', JStr ''''), (''parts'', JArr [JObj [(''text'', JStr ''be brief'')]])])
      \<noteq> spec_finalSystemInstruction example_config
        (JObj [(''systemInstruction'',
           JObj [(''role'', JStr ''''), (''parts'', JArr [JObj [(''text'', JStr ''be brief'')]])])])"
  by (simp add: convert_eval js_eval spec_finalSystemInstruction_def has_key_def)




lemma filter_update_excluded:
  "k \<in> set ex \<Longrightarrow>
   filter (\<lambda>(k', x). k' \<notin> set ex) (AList.update k v ps) = filter (\<lambda>(k', x). k' \<notin> set ex) ps"
  by (induction ps) auto

lemma filter_ins_prop_excluded:
  "k \<in> set ex \<Longrightarrow>
   filter (\<lambda>(k', x). k' \<notin> set ex) (ins_prop k v ps) = filter (\<lambda>(k', x). k' \<notin> set ex) ps"
proof (induction ps)
  case Nil
  then show ?case by simp
next
  case (Cons p ps)
  obtain k' v' where p: "p = (k', v')" by (cases p)
  from Cons show ?case by (simp add: p)
qed

lemma copy_without_obj_set:
  "k \<in> set ex \<Longrightarrow> copy_without ex (JObj (obj_set k v ps)) = copy_without ex (JObj ps)"
  by (simp add: copy_without_def obj_set_def filter_update_excluded filter_ins_prop_excluded)

lemma member_obj_set:
  "k' \<noteq> k \<Longrightarrow> member (JObj (obj_set k v ps)) k' = member (JObj ps) k'"
  by (simp add: member_JObj own_obj_set)

lemma convert_cases:
  "convertGeminiToAntigravity cfg rid model req token =
     (if ok_input req token
      then Inr (JObj [(''project'', member token ''projectId''), (''requestId'', rid),
                (''request'', JObj (request_props cfg req token)),
                (''model'', model), (''userAgent'', JStr ''antigravity'')])
      else Inl TypeError)"
  by (simp add: convert_ok convert_fail)

lemma convert_ignores_safetySettings:
  "convertGeminiToAntigravity cfg rid model (JObj (obj_set ''safetySettings'' v ps)) token
   = convertGeminiToAntigravity cfg rid model (JObj ps) token"
proof -
  have "ok_input (JObj (obj_set ''safetySettings'' v ps)) token = ok_input (JObj ps) token"
    by (simp add: ok_input_def member_obj_set nullish_def)
  moreover have "request_props cfg (JObj (obj_set ''safetySettings'' v ps)) token
      = request_props cfg (JObj ps) token"
    by (simp add: request_props_def rest_of_def incoming_generationConfig_def
        copy_without_obj_set member_obj_set)
  ultimately show ?thesis by (simp only: convert_cases)
qed

lemma keys_request_props:
  "fst ` set (request_props cfg req token) =
     fst ` set (rest_of req) \<union> {''contents'', ''systemInstruction'', ''generationConfig'', ''sessionId''}"
  by (auto simp: request_props_def spread_def keys_fold_obj_set)

text \<open>
  C6 (amended). For a request whose objects have distinct keys and that the translator
  accepts, the result has no property \<^verbatim>\<open>safetySettings\<close>, neither at its top level nor in
  \<^verbatim>\<open>request\<close>; the result is the same whatever value the request's own \<^verbatim>\<open>safetySettings\<close>
  has, and whether it has one; and every top-level property of the request other than
  \<^verbatim>\<open>contents\<close>, \<^verbatim>\<open>generationConfig\<close>, \<^verbatim>\<open>systemInstruction\<close> and \<^verbatim>\<open>safetySettings\<close> is a
  property of \<^verbatim>\<open>request\<close> with the same value. (A property named \<^verbatim>\<open>safetySettings\<close> inside
  a value that is passed through, such as \<^verbatim>\<open>generationConfig\<close>, is passed through with it.)
\<close>

theorem safetySettings_discarded:
  "wf_val req \<and> ok_input req token \<longrightarrow>
     (\<exists>out.
        convertGeminiToAntigravity cfg rid model req token = Inr out
        \<and> \<not> has_key out ''safetySettings''
        \<and> \<not> has_key (request_of out) ''safetySettings''
        \<and> (\<forall>ps v. req = JObj ps \<longrightarrow>
              convertGeminiToAntigravity cfg rid model (JObj (obj_set ''safetySettings'' v ps)) token
                = Inr out)
        \<and> (\<forall>k. has_key req k
                \<and> k \<notin> {''contents'', ''generationConfig'', ''systemInstruction'', ''safetySettings''}
              \<longrightarrow> has_key (request_of out) k \<and> member (request_of out) k = member req k))"
  (is "_ \<longrightarrow> ?concl")
proof
  assume a: "wf_val req \<and> ok_input req token"
  define out where "out = JObj [(''project'', member token ''projectId''), (''requestId'', rid),
                (''request'', JObj (request_props cfg req token)),
                (''model'', model), (''userAgent'', JStr ''antigravity'')]"
  have 1: "convertGeminiToAntigravity cfg rid model req token = Inr out"
    using a by (simp add: convert_ok out_def)
  have 2: "\<not> has_key out ''safetySettings''" by (simp add: out_def has_key_def)
  have r: "request_of out = JObj (request_props cfg req token)"
    by (simp add: out_def request_of_out)
  have 3: "\<not> has_key (request_of out) ''safetySettings''"
    by (simp add: r has_key_def keys_request_props keys_rest_of)
  have 4: "\<forall>ps v. req = JObj ps \<longrightarrow>
      convertGeminiToAntigravity cfg rid model (JObj (obj_set ''safetySettings'' v ps)) token = Inr out"
    using 1 by (auto simp: convert_ignores_safetySettings)
  have 5: "\<forall>k. has_key req k
                \<and> k \<notin> {''contents'', ''generationConfig'', ''systemInstruction'', ''safetySettings''}
              \<longrightarrow> has_key (request_of out) k \<and> member (request_of out) k = member req k"
  proof (intro allI impI)
    fix k
    assume k: "has_key req k
       \<and> k \<notin> {''contents'', ''generationConfig'', ''systemInstruction'', ''safetySettings''}"
    then have kr: "k \<in> fst ` set (rest_of req)" by (simp add: keys_rest_of has_key_def)
    have "own (rest_of req) k = member req k"
      using a k by (simp add: rest_of_def own_copy_without)
    with kr show "has_key (request_of out) k \<and> member (request_of out) k = member req k"
      by (simp add: r has_key_def keys_request_props member_JObj own_request_props)
  qed
  show ?concl using 1 2 3 4 5 by blast
qed

theorem safetySettings_discarded_witness:
  "wf_val (JObj [(''contents'', JArr [JObj [(''role'', JStr ''user'')]]),
                 (''safetySettings'', JArr [JObj [(''category'', JStr ''HARM'')]]),
                 (''tools'', JArr [])])
   \<and> ok_input (JObj [(''contents'', JArr [JObj [(''role'', JStr ''user'')]]),
                 (''safetySettings'', JArr [JObj [(''category'', JStr ''HARM'')]]),
                 (''tools'', JArr [])]) example_token
   \<and> convertGeminiToAntigravity example_config (JStr ''req-1'') (JStr ''gemini-pro'')
        (JObj [(''contents'', JArr [JObj [(''role'', JStr ''user'')]]),
                 (''safetySettings'', JArr [JObj [(''category'', JStr ''HARM'')]]),
                 (''tools'', JArr [])]) example_token
      = Inr (JObj [(''project'', JStr ''p-1''), (''requestId'', JStr ''req-1''),
           (''request'', JObj [(''contents'', JArr [JObj [(''role'', JStr ''user'')]]),
              (''systemInstruction'',
                 JObj [(''role'', JStr ''user''), (''parts'', JArr [JObj [(''text'', JStr '''')]])]),
              (''generationConfig'',
                 JObj [(''topP'', JNum 85 2), (''topK'', JNum 50 0), (''temperature'', JNum 1 0),
                       (''maxOutputTokens'', JNum 8096 0), (''candidateCount'', JNum 1 0)]),
              (''sessionId'', JStr ''s-1''),
              (''tools'', JArr [])]),
           (''model'', JStr ''gemini-pro''), (''userAgent'', JStr ''antigravity'')])"
  using safetySettings_discarded
    [of "JObj [(''contents'', JArr [JObj [(''role'', JStr ''user'')]]),
                 (''safetySettings'', JArr [JObj [(''category'', JStr ''HARM'')]]),
                 (''tools'', JArr [])]" example_token example_config "JStr ''req-1''"
        "JStr ''gemini-pro''"]
  by (simp add: convert_eval js_eval)

theorem safetySettings_nested_counterexample:
  "convertGeminiToAntigravity example_config (JStr ''req-1'') (JStr ''gemini-pro'')
        (JObj [(''generationConfig'', JObj [(''safetySettings'', JArr [])])]) example_token
      = Inr (JObj [(''project'', JStr ''p-1''), (''requestId'', JStr ''req-1''),
           (''request'', JObj [(''contents'', JArr []),
              (''systemInstruction'',
                 JObj [(''role'', JStr ''user''), (''parts'', JArr [JObj [(''text'', JStr '''')]])]),
              (''generationConfig'',
                 JObj [(''topP'', JNum 85 2), (''topK'', JNum 50 0), (''temperature'', JNum 1 0),
                       (''maxOutputTokens'', JNum 8096 0), (''candidateCount'', JNum 1 0),
                       (''safetySettings'', JArr [])]),
              (''sessionId'', JStr ''s-1'')]),
           (''model'', JStr ''gemini-pro''), (''userAgent'', JStr ''antigravity'')])
   \<and> has_field ''safetySettings''
        (JObj [(''project'', JStr ''p-1''), (''requestId'', JStr ''req-1''),
           (''request'', JObj [(''contents'', JArr []),
              (''systemInstruction'',
                 JObj [(''role'', JStr ''user''), (''parts'', JArr [JObj [(''text'', JStr '''')]])]),
              (''generationConfig'',
                 JObj [(''topP'', JNum 85 2), (''topK'', JNum 50 0), (''temperature'', JNum 1 0),
                       (''maxOutputTokens'', JNum 8096 0), (''candidateCount'', JNum 1 0),
                       (''safetySettings'', JArr [])]),
              (''sessionId'', JStr ''s-1'')]),
           (''model'', JStr ''gemini-pro''), (''userAgent'', JStr ''antigravity'')])"
  by (simp add: convert_eval js_eval)

text \<open>
  C10. For a request whose objects have distinct keys and that the translator accepts, and
  for each of the keys \<^verbatim>\<open>topP\<close>, \<^verbatim>\<open>topK\<close>, \<^verbatim>\<open>temperature\<close>, \<^verbatim>\<open>maxOutputTokens\<close>,
  \<^verbatim>\<open>candidateCount\<close>: when the incoming \<^verbatim>\<open>generationConfig\<close> maps the key to \<^verbatim>\<open>null\<close>, so
  does the merged \<^verbatim>\<open>request.generationConfig\<close>; and the merged value differs from the
  incoming one only when the key is absent, in which case it is the configured default
  (the literal 1 for \<^verbatim>\<open>candidateCount\<close>).
\<close>

theorem generationConfig_explicit_null:
  "wf_val req \<and> ok_input req token
     \<and> k \<in> {''topP'', ''topK'', ''temperature'', ''maxOutputTokens'', ''candidateCount''} \<longrightarrow>
     (\<exists>out merged.
        convertGeminiToAntigravity cfg rid model req token = Inr out
        \<and> member (request_of out) ''generationConfig'' = JObj merged
        \<and> (has_key (incoming_generationConfig req) k
              \<and> member (incoming_generationConfig req) k = JNull \<longrightarrow> own merged k = JNull)
        \<and> (own merged k \<noteq> member (incoming_generationConfig req) k \<longrightarrow>
              \<not> has_key (incoming_generationConfig req) k \<and> own merged k = default_of cfg k))"
  (is "_ \<longrightarrow> ?concl")
proof
  assume a: "wf_val req \<and> ok_input req token
     \<and> k \<in> {''topP'', ''topK'', ''temperature'', ''maxOutputTokens'', ''candidateCount''}"
  define gc where "gc = incoming_generationConfig req"
  have wf: "wf_val gc" using a by (simp add: gc_def wf_incoming)
  note o = own_merged_of[OF wf, of cfg]
  define out where "out = JObj [(''project'', member token ''projectId''), (''requestId'', rid),
                (''request'', JObj (request_props cfg req token)),
                (''model'', model), (''userAgent'', JStr ''antigravity'')]"
  have 1: "convertGeminiToAntigravity cfg rid model req token = Inr out"
    using a by (simp add: convert_ok out_def)
  have 2: "member (request_of out) ''generationConfig'' = JObj (merged_of cfg gc)"
    by (simp add: out_def request_of_out member_JObj request_generationConfig gc_def)
  have 3: "has_key gc k \<and> member gc k = JNull \<longrightarrow> own (merged_of cfg gc) k = JNull"
    by (simp add: o)
  have 4: "own (merged_of cfg gc) k \<noteq> member gc k \<longrightarrow>
      \<not> has_key gc k \<and> own (merged_of cfg gc) k = default_of cfg k"
    by (simp add: o default_of_def)
  show ?concl using 1 2 3 4 unfolding gc_def by blast
qed

theorem generationConfig_explicit_null_witness:
  "wf_val (JObj [(''generationConfig'', JObj [(''temperature'', JNull)])])
   \<and> ok_input (JObj [(''generationConfig'', JObj [(''temperature'', JNull)])]) example_token
   \<and> convertGeminiToAntigravity example_config (JStr ''req-1'') (JStr ''gemini-pro'')
        (JObj [(''generationConfig'', JObj [(''temperature'', JNull)])]) example_token
      = Inr (JObj [(''project'', JStr ''p-1''), (''requestId'', JStr ''req-1''),
           (''request'', JObj [(''contents'', JArr []),
              (''systemInstruction'',
                 JObj [(''role'', JStr ''user''), (''parts'', JArr [JObj [(''text'', JStr '''')]])]),
              (''generationConfig'',
                 JObj [(''topP'', JNum 85 2), (''topK'', JNum 50 0), (''temperature'', JNull),
                       (''maxOutputTokens'', JNum 8096 0), (''candidateCount'', JNum 1 0)]),
              (''sessionId'', JStr ''s-1'')]),
           (''model'', JStr ''gemini-pro''), (''userAgent'', JStr ''antigravity'')])"
  using generationConfig_explicit_null
    [of "JObj [(''generationConfig'', JObj [(''temperature'', JNull)])]" example_token
        "''temperature''" example_config "JStr ''req-1''" "JStr ''gemini-pro''"]
  by (simp add: convert_eval js_eval)

lemmas json_eval = JSON_parse_def lex_idle_def is_ws_def is_word_char_def char_between_def
  classify_word_def parse_number_def parse_unsigned_def decimal_value_def
  parse_value_start_def quote_def quote_char_def number_to_string_def unsigned_text_def
  exponent_text_def strip_zeros_def template_text_def starts_with_def
  transformStreamLine_def transformStreamLine_try_def digits_of.simps nat_of_digits_def
  digit_val_def hex_val_def hex_digit_def

lemma get_prop_member: "\<not> nullish v \<Longrightarrow> get_prop v k = Inr (member v k)"
  by (cases v) (simp_all add: nullish_def member_def)

lemma get_prop_nullish: "nullish v \<Longrightarrow> get_prop v k = Inl TypeError"
  by (auto simp: nullish_def)

lemma truthy_not_nullish: "truthy v \<Longrightarrow> \<not> nullish v"
  by (auto simp: nullish_def)

lemma isArray_member_truthy: "isArray (member v k) \<Longrightarrow> truthy v"
  by (rule member_truthy [of v k]) auto

lemma isArray_truthy: "isArray v \<Longrightarrow> truthy v"
  by (cases v) auto

lemma extract_payload:
  "extractGeminiResponse d =
     (let p = (if truthy (member d ''response'') then member d ''response'' else d)
      in if isArray (member p ''candidates'')
         then JObj (obj_set ''candidates''
                      (JArr (mapi sanitizeCandidate (elems (member p ''candidates''))))
                      (spread p []))
         else p)"
proof -
  have 1: "(truthy d \<and> truthy (member d ''response'')) = truthy (member d ''response'')"
    using truthy_member[of d "''response''"] by blast
  show ?thesis
    unfolding extractGeminiResponse_def 1 Let_def
    using isArray_member_truthy by auto
qed

lemma try_ok:
  assumes p: "JSON_parse (drop 6 line) = Inr d" and n: "\<not> nullish d"
  shows "transformStreamLine_try line =
           Inr (''data: '' @ template_text (JSON_stringify (extractGeminiResponse d)))"
proof -
  define g where "g = (if truthy (member d ''response'') then member d ''response'' else d)"
  have ng: "\<not> nullish g" using n by (auto simp: g_def truthy_not_nullish)
  have c: "(truthy (member g ''candidates'') \<and> isArray (member g ''candidates''))
            = isArray (member g ''candidates'')"
    using isArray_truthy by blast
  show ?thesis
    unfolding transformStreamLine_try_def p
    by (simp add: get_prop_member[OF n] g_def[symmetric] get_prop_member[OF ng] c
        extract_payload Let_def)
qed

lemma try_null:
  "JSON_parse (drop 6 line) = Inr d \<Longrightarrow> nullish d \<Longrightarrow> transformStreamLine_try line = Inl TypeError"
  by (simp add: transformStreamLine_try_def get_prop_nullish)

lemma try_syntax:
  "JSON_parse (drop 6 line) = Inl e \<Longrightarrow> transformStreamLine_try line = Inl e"
  by (simp add: transformStreamLine_try_def)

lemma push_value_done: "push_value v st = Some (PDone v', st') \<Longrightarrow> v' = v"
  by (cases "(v, st)" rule: push_value.cases) auto

lemma scalar_defined: "scalar_of t = Some v \<Longrightarrow> v \<noteq> JUndefined"
  by (cases t) auto

lemma value_start_done:
  "parse_value_start st t = Some (PDone v, st') \<Longrightarrow> v \<noteq> JUndefined"
  by (auto simp: parse_value_start_def split: if_splits option.splits
      dest: push_value_done scalar_defined)

lemma parse_step_done: "parse_step s t = Some (PDone v, st') \<Longrightarrow> v \<noteq> JUndefined"
  by (cases "(s, t)" rule: parse_step.cases)
     (auto split: if_splits token.splits dest: push_value_done value_start_done)

lemma parse_run_defined:
  "parse_run s ts = Some v \<Longrightarrow> fst s \<noteq> PDone JUndefined \<Longrightarrow> v \<noteq> JUndefined"
proof (induction ts arbitrary: s)
  case Nil
  then show ?case by (cases "(s, [] :: token list)" rule: parse_run.cases) auto
next
  case (Cons t ts)
  from Cons.prems(1) obtain s' where s': "parse_step s t = Some s'" "parse_run s' ts = Some v"
    by (cases s) (auto split: option.splits)
  have "fst s' \<noteq> PDone JUndefined"
    using s'(1) parse_step_done[of s t JUndefined "snd s'"] by (cases s') auto
  with Cons.IH s'(2) show ?case by blast
qed

lemma JSON_parse_defined: "JSON_parse s \<noteq> Inr JUndefined"
  using parse_run_defined[of "(PValue, [])"]
  by (auto simp: JSON_parse_def split: option.splits)

lemma transform_cases:
  "transformStreamLine line =
     (if \<not> starts_with ''data: '' line then line
      else case JSON_parse (drop 6 line) of
             Inl e \<Rightarrow> line
           | Inr d \<Rightarrow>
               if d = JNull then line
               else ''data: '' @ template_text (JSON_stringify (extractGeminiResponse d)))"
proof (cases "JSON_parse (drop 6 line)")
  case (Inl e)
  then show ?thesis by (simp add: transformStreamLine_def try_syntax)
next
  case (Inr d)
  show ?thesis
  proof (cases "d = JNull")
    case True
    with Inr show ?thesis by (simp add: transformStreamLine_def try_null nullish_def)
  next
    case False
    moreover have "d \<noteq> JUndefined" using Inr JSON_parse_defined[of "drop 6 line"] by auto
    ultimately have "\<not> nullish d" by (simp add: nullish_def)
    with Inr False show ?thesis by (simp add: transformStreamLine_def try_ok)
  qed
qed

text \<open>
  C3 (amended). \<^verbatim>\<open>transformStreamLine\<close> is a total function from lines to lines (every
  error raised in its \<^verbatim>\<open>try\<close> block is caught). It returns the line unchanged when the line
  does not begin with \<^verbatim>\<open>"data: "\<close>, when the text after the prefix is not JSON, and when that
  text is JSON for \<^verbatim>\<open>null\<close> (the read \<^verbatim>\<open>data.response\<close> raises a TypeError, which is caught).
  When the text is JSON for any other value \<open>d\<close>, the result is \<^verbatim>\<open>"data: "\<close> followed by the
  JSON text of \<^verbatim>\<open>extractGeminiResponse(d)\<close>: the same unwrapping and the same sanitizing of
  the candidates at their positions.
\<close>

theorem transformStreamLine_spec:
  "(\<not> starts_with ''data: '' line \<longrightarrow> transformStreamLine line = line)
   \<and> (starts_with ''data: '' line \<and> (\<exists>e. JSON_parse (drop 6 line) = Inl e) \<longrightarrow>
         transformStreamLine line = line)
   \<and> (starts_with ''data: '' line \<and> JSON_parse (drop 6 line) = Inr JNull \<longrightarrow>
         transformStreamLine line = line)
   \<and> (\<forall>d. starts_with ''data: '' line \<and> JSON_parse (drop 6 line) = Inr d \<and> d \<noteq> JNull \<longrightarrow>
         transformStreamLine line
           = ''data: '' @ template_text (JSON_stringify (extractGeminiResponse d)))"
  by (auto simp: transform_cases)

theorem transformStreamLine_spec_witness:
  \<open>transformStreamLine ''not a data line'' = ''not a data line''
   \<and> transformStreamLine ''data: {not json'' = ''data: {not json''
   \<and> transformStreamLine ''data: [DONE]'' = ''data: [DONE]''
   \<and> transformStreamLine
        ''data: {"response":{"candidates":[{"content":{"parts":[{"text":"hi","thoughtSignature":"z"}]}}]}}''
      = ''data: {"candidates":[{"content":{"parts":[{"text":"hi"}]},"index":0}]}''\<close>
  using transformStreamLine_spec [of "''not a data line''"]
    transformStreamLine_spec [of "''data: {not json''"]
    transformStreamLine_spec [of "''data: [DONE]''"]
    transformStreamLine_spec
      [of \<open>''data: {"response":{"candidates":[{"content":{"parts":[{"text":"hi","thoughtSignature":"z"}]}}]}}''\<close>]
  by (simp add: json_eval js_eval)

theorem transformStreamLine_null_counterexample:
  "starts_with ''data: '' ''data:  null''
   \<and> JSON_parse (drop 6 ''data:  null'') = Inr JNull
   \<and> transformStreamLine ''data:  null'' = ''data:  null''
   \<and> ''data: '' @ template_text (JSON_stringify (extractGeminiResponse JNull)) = ''data: null''
   \<and> transformStreamLine ''data:  null''
       \<noteq> ''data: '' @ template_text (JSON_stringify (extractGeminiResponse JNull))"
  by (simp add: json_eval js_eval)







end
